theory Spec2Isabelle
  imports Complex_Main
begin

section \<open>Values\<close>

text \<open>
  The dashboard of \<^verbatim>\<open>app.py\<close> handles three kinds of scalar: floating-point numbers,
  strings and Python's \<^verbatim>\<open>None\<close>. A floating-point number is modelled by its value: a
  finite one by the rational it denotes, the three special ones by constructors of their
  own. The comparisons the program makes (against \<^verbatim>\<open>-90\<close>, \<^verbatim>\<open>90\<close>, \<^verbatim>\<open>-180\<close>, \<^verbatim>\<open>180\<close>) are
  exact on floating-point numbers, so they are exact here; sums and quotients are the
  exact rational ones, rounding is not modelled.
\<close>

datatype fl = Fin rat | PInf | NInf | NaN

text \<open>\<^verbatim>\<open>a <= b\<close> on floats: every comparison with \<^verbatim>\<open>nan\<close> is false.\<close>

fun fl_le :: "fl \<Rightarrow> fl \<Rightarrow> bool" where
  "fl_le NaN _ = False"
| "fl_le _ NaN = False"
| "fl_le NInf _ = True"
| "fl_le _ PInf = True"
| "fl_le (Fin a) (Fin b) = (a \<le> b)"
| "fl_le (Fin _) NInf = False"
| "fl_le PInf (Fin _) = False"
| "fl_le PInf NInf = False"

text \<open>The exceptions that the modelled code and the library calls it makes can raise.\<close>

datatype py_error =
    KeyError string
  | ValueError
  | TypeError
  | OverflowError
  | ReadError

text \<open>The arguments a caller can hand to \<^verbatim>\<open>validate_coordinates\<close>.\<close>

datatype pyval = PyNone | PyStr string | PyFloat fl | PyInt int | PyOther

text \<open>
  Python's \<^verbatim>\<open>float(x)\<close>. How a string is read as a number is the interpreter's business
  and not part of the repository: it is the parameter \<open>rd\<close>, which returns \<open>None\<close> where
  \<^verbatim>\<open>float\<close> raises \<^verbatim>\<open>ValueError\<close>. An integer too large for a double raises
  \<^verbatim>\<open>OverflowError\<close>; \<^verbatim>\<open>None\<close> and other objects raise \<^verbatim>\<open>TypeError\<close>.
\<close>

definition py_float :: "(string \<Rightarrow> fl option) \<Rightarrow> pyval \<Rightarrow> py_error + fl" where
  "py_float rd v =
     (case v of
        PyNone \<Rightarrow> Inl TypeError
      | PyStr s \<Rightarrow> (case rd s of None \<Rightarrow> Inl ValueError | Some x \<Rightarrow> Inr x)
      | PyFloat x \<Rightarrow> Inr x
      | PyInt i \<Rightarrow> (if \<bar>i\<bar> \<ge> 2 ^ 1024 - 2 ^ 970 then Inl OverflowError else Inr (Fin (of_int i)))
      | PyOther \<Rightarrow> Inl TypeError)"

section \<open>Coordinate validation\<close>

text \<open>
  \<^verbatim>\<open>
  def validate_coordinates(lat, lon):
      try:
          lat = float(lat); lon = float(lon)
          return (-90 <= lat <= 90) and (-180 <= lon <= 180)
      except Exception:
          return False
  \<close>
  The body of the \<^verbatim>\<open>try\<close> is \<open>validate_coordinates_try\<close>; the handler catches every
  exception of \<^typ>\<open>py_error\<close> (all of them derive from \<^verbatim>\<open>Exception\<close>).
\<close>

definition validate_coordinates_try ::
    "(string \<Rightarrow> fl option) \<Rightarrow> pyval \<Rightarrow> pyval \<Rightarrow> py_error + bool" where
  "validate_coordinates_try rd lat lon =
     (case py_float rd lat of
        Inl e \<Rightarrow> Inl e
      | Inr lat' \<Rightarrow>
          (case py_float rd lon of
             Inl e \<Rightarrow> Inl e
           | Inr lon' \<Rightarrow>
               Inr ((fl_le (Fin (- 90)) lat' \<and> fl_le lat' (Fin 90))
                    \<and> (fl_le (Fin (- 180)) lon' \<and> fl_le lon' (Fin 180)))))"

definition validate_coordinates ::
    "(string \<Rightarrow> fl option) \<Rightarrow> pyval \<Rightarrow> pyval \<Rightarrow> py_error + bool" where
  "validate_coordinates rd lat lon =
     (case validate_coordinates_try rd lat lon of
        Inl e \<Rightarrow> Inr False
      | Inr b \<Rightarrow> Inr b)"

text \<open>
  A reader of plain decimal literals (an optional sign, digits, an optional fraction),
  used where an example needs a concrete reader of numbers.
\<close>

definition digit_val :: "char \<Rightarrow> nat option" where
  "digit_val c = map_of (zip ''0123456789'' [0, 1, 2, 3, 4, 5, 6, 7, 8, 9]) c"

fun read_digits :: "nat \<Rightarrow> string \<Rightarrow> nat option" where
  "read_digits acc [] = Some acc"
| "read_digits acc (c # cs) =
     (case digit_val c of None \<Rightarrow> None | Some d \<Rightarrow> read_digits (10 * acc + d) cs)"

definition read_unsigned :: "string \<Rightarrow> rat option" where
  "read_unsigned s =
     (let ip = takeWhile (\<lambda>c. c \<noteq> CHR ''.'') s;
          rest = dropWhile (\<lambda>c. c \<noteq> CHR ''.'') s
      in if ip = [] then None
         else case read_digits 0 ip of
                None \<Rightarrow> None
              | Some i \<Rightarrow>
                  (case rest of
                     [] \<Rightarrow> Some (of_nat i)
                   | _ # fp \<Rightarrow>
                       (case read_digits 0 fp of
                          None \<Rightarrow> None
                        | Some f \<Rightarrow> Some (of_nat i + of_nat f / 10 ^ length fp))))"

definition read_decimal :: "string \<Rightarrow> fl option" where
  "read_decimal s =
     (case s of
        [] \<Rightarrow> None
      | c # cs \<Rightarrow>
          if c = CHR ''-'' then map_option (\<lambda>r. Fin (- r)) (read_unsigned cs)
          else if c = CHR ''+'' then map_option Fin (read_unsigned cs)
          else map_option Fin (read_unsigned s))"

section \<open>Strings\<close>

text \<open>
  Column names are byte strings. \<^verbatim>\<open>str.lower\<close> is modelled on the letters \<^verbatim>\<open>A\<close> to \<^verbatim>\<open>Z\<close>;
  every other byte is left as it is. \<open>contains t s\<close> is Python's \<^verbatim>\<open>t in s\<close> on strings.
\<close>

definition lower_char :: "char \<Rightarrow> char" where
  "lower_char c =
     (case map_of (zip ''ABCDEFGHIJKLMNOPQRSTUVWXYZ'' ''abcdefghijklmnopqrstuvwxyz'') c of
        None \<Rightarrow> c
      | Some d \<Rightarrow> d)"

definition lower :: "string \<Rightarrow> string" where
  "lower s = map lower_char s"

fun starts_with :: "string \<Rightarrow> string \<Rightarrow> bool" where
  "starts_with [] s = True"
| "starts_with (a # t) [] = False"
| "starts_with (a # t) (b # s) = (a = b \<and> starts_with t s)"

fun contains :: "string \<Rightarrow> string \<Rightarrow> bool" where
  "contains t [] = (t = [])"
| "contains t (c # s) = (starts_with t (c # s) \<or> contains t s)"

section \<open>Tables\<close>

text \<open>
  A data frame of the table library, as far as the program uses it: the column labels in
  order, each with the kind of its values (\<^verbatim>\<open>select_dtypes(include=[np.number])\<close> keeps
  the \<open>Number\<close> ones), and the rows in order. A row is what \<^verbatim>\<open>iterrows\<close> yields: the
  labels paired with the row's values. A missing value is \<open>Num NaN\<close>. Boolean and date
  columns are not modelled.

  A label may occur twice in a frame (\<^verbatim>\<open>rename\<close> can produce that); the reader
  \<^verbatim>\<open>pd.read_csv\<close> itself returns frames with pairwise distinct labels whose rows all
  carry the labels of the header, which is \<open>wf_frame\<close>.
\<close>

datatype cell = Num fl | Str string

datatype dtype = Number | Object

type_synonym series = "(string \<times> cell) list"

record dataframe =
  columns :: "(string \<times> dtype) list"
  rows :: "series list"

definition labels :: "dataframe \<Rightarrow> string list" where
  "labels df = map fst (columns df)"

definition wf_frame :: "dataframe \<Rightarrow> bool" where
  "wf_frame df \<longleftrightarrow>
     distinct (labels df) \<and> list_all (\<lambda>r. map fst r = labels df) (rows df)"

text \<open>\<^verbatim>\<open>pd.DataFrame()\<close>, \<^verbatim>\<open>df.empty\<close> (some axis has length 0) and \<^verbatim>\<open>len(df)\<close>.\<close>

definition DataFrame :: dataframe where
  "DataFrame = \<lparr>columns = [], rows = []\<rparr>"

definition empty_frame :: "dataframe \<Rightarrow> bool" where
  "empty_frame df \<longleftrightarrow> columns df = [] \<or> rows df = []"

definition len :: "dataframe \<Rightarrow> int" where
  "len df = int (length (rows df))"

text \<open>
  \<^verbatim>\<open>pd.to_numeric(column, errors="coerce")\<close>: a number stays, a string is read as a number
  or becomes \<^verbatim>\<open>NaN\<close>. How the library reads a string is the parameter \<open>rd\<close>.
  \<open>getcol\<close> is \<^verbatim>\<open>df[k]\<close> for a label \<open>k\<close> of the frame, row by row.
\<close>

definition cell_at :: "series \<Rightarrow> string \<Rightarrow> cell" where
  "cell_at r k = (case map_of r k of None \<Rightarrow> Num NaN | Some c \<Rightarrow> c)"

definition getcol :: "dataframe \<Rightarrow> string \<Rightarrow> cell list" where
  "getcol df k = map (\<lambda>r. cell_at r k) (rows df)"

fun to_numeric_cell :: "(string \<Rightarrow> fl option) \<Rightarrow> cell \<Rightarrow> fl" where
  "to_numeric_cell rd (Num x) = x"
| "to_numeric_cell rd (Str s) = (case rd s of None \<Rightarrow> NaN | Some x \<Rightarrow> x)"

definition to_numeric :: "(string \<Rightarrow> fl option) \<Rightarrow> cell list \<Rightarrow> fl list" where
  "to_numeric rd cs = map (to_numeric_cell rd) cs"

text \<open>
  \<^verbatim>\<open>df[k] = values\<close>: the column labelled \<open>k\<close> is overwritten where it is, or a new column is
  appended after the others.
\<close>

definition put :: "string \<Rightarrow> cell \<Rightarrow> series \<Rightarrow> series" where
  "put k v r =
     (if k \<in> set (map fst r) then map (\<lambda>(l, c). if l = k then (l, v) else (l, c)) r
      else r @ [(k, v)])"

definition setcol :: "string \<Rightarrow> fl list \<Rightarrow> dataframe \<Rightarrow> dataframe" where
  "setcol k vs df =
     \<lparr>columns =
        (if k \<in> set (labels df)
         then map (\<lambda>(l, t). if l = k then (l, Number) else (l, t)) (columns df)
         else columns df @ [(k, Number)]),
      rows = map (\<lambda>(v, r). put k (Num v) r) (zip vs (rows df))\<rparr>"

text \<open>\<^verbatim>\<open>s.notna()\<close> and \<^verbatim>\<open>s.between(lo, hi)\<close> (both ends included) on one value.\<close>

definition notna :: "fl \<Rightarrow> bool" where
  "notna x \<longleftrightarrow> x \<noteq> NaN"

definition between :: "fl \<Rightarrow> rat \<Rightarrow> rat \<Rightarrow> bool" where
  "between x lo hi \<longleftrightarrow> fl_le (Fin lo) x \<and> fl_le x (Fin hi)"

text \<open>\<^verbatim>\<open>df.loc[mask]\<close>, \<^verbatim>\<open>df.rename(columns=...)\<close> and \<^verbatim>\<open>df.drop(columns=..., errors="ignore")\<close>.\<close>

definition loc :: "bool list \<Rightarrow> dataframe \<Rightarrow> dataframe" where
  "loc msk df = \<lparr>columns = columns df, rows = map snd (filter fst (zip msk (rows df)))\<rparr>"

definition rename :: "(string \<Rightarrow> string) \<Rightarrow> dataframe \<Rightarrow> dataframe" where
  "rename f df =
     \<lparr>columns = map (\<lambda>(l, t). (f l, t)) (columns df),
      rows = map (map (\<lambda>(l, c). (f l, c))) (rows df)\<rparr>"

definition drop_columns :: "string list \<Rightarrow> dataframe \<Rightarrow> dataframe" where
  "drop_columns ks df =
     \<lparr>columns = filter (\<lambda>(l, t). l \<notin> set ks) (columns df),
      rows = map (filter (\<lambda>(l, c). l \<notin> set ks)) (rows df)\<rparr>"

section \<open>The loader\<close>

text \<open>
  The loop of \<^verbatim>\<open>parse_csv\<close> that looks for the latitude and longitude columns:
  \<^verbatim>\<open>
  lat_col = lon_col = None
  for c in df.columns:
      lc = c.lower()
      if lat_col is None and any(t in lc for t in ["lat","latitude"]): lat_col = c
      if lon_col is None and any(t in lc for t in ["lon","long","longitude","lng"]): lon_col = c
  \<close>
  \<open>detect_step\<close> is one pass through the body, \<open>detect\<close> the loop.
\<close>

definition lat_tokens :: "string list" where
  "lat_tokens = [''lat'', ''latitude'']"

definition lon_tokens :: "string list" where
  "lon_tokens = [''lon'', ''long'', ''longitude'', ''lng'']"

definition detect_step ::
    "string option \<times> string option \<Rightarrow> string \<Rightarrow> string option \<times> string option" where
  "detect_step st c =
     (let lc = lower c;
          lat_col = (if fst st = None \<and> list_ex (\<lambda>t. contains t lc) lat_tokens
                     then Some c else fst st);
          lon_col = (if snd st = None \<and> list_ex (\<lambda>t. contains t lc) lon_tokens
                     then Some c else snd st)
      in (lat_col, lon_col))"

definition detect :: "string list \<Rightarrow> string option \<times> string option" where
  "detect cs = foldl detect_step (None, None) cs"

text \<open>
  \<^verbatim>\<open>
  if lat_col is None or lon_col is None:
      nums = df.select_dtypes(include=[np.number]).columns.tolist()
      if len(nums) >= 2:
          lat_col, lon_col = nums[:2]
      else:
          return pd.DataFrame(), 0, len(df), None, None, None, None
  \<close>
  \<open>resolve\<close> is \<open>None\<close> on the early return and the pair of column labels otherwise.
\<close>

definition select_number :: "dataframe \<Rightarrow> string list" where
  "select_number df = map fst (filter (\<lambda>(l, t). t = Number) (columns df))"

definition resolve :: "dataframe \<Rightarrow> (string \<times> string) option" where
  "resolve df =
     (case detect (labels df) of
        (Some lat_col, Some lon_col) \<Rightarrow> Some (lat_col, lon_col)
      | _ \<Rightarrow>
          (case select_number df of
             a # b # _ \<Rightarrow> Some (a, b)
           | _ \<Rightarrow> None))"

text \<open>
  The tuple \<^verbatim>\<open>parse_csv\<close> returns:
  \<^verbatim>\<open>(valid_df, valid_count, invalid_count, postal_col, name_col, lat_col, lon_col)\<close>.
\<close>

record load_result =
  valid_df :: dataframe
  valid_count :: int
  invalid_count :: int
  res_postal_col :: "string option"
  res_name_col :: "string option"
  res_lat_col :: "string option"
  res_lon_col :: "string option"

definition postal_tokens :: "string list" where
  "postal_tokens =
     [''postal'', ''postal code'', ''zip'', ''zip code'', ''zipcode'', ''post_code'',
      ''pincode'', ''zip_code'']"

definition name_tokens :: "string list" where
  "name_tokens = [''name'', ''title'', ''label'', ''location_name'']"

definition first_or_none :: "'a list \<Rightarrow> 'a option" where
  "first_or_none xs = (case xs of [] \<Rightarrow> None | x # _ \<Rightarrow> Some x)"

definition canonical :: "string \<Rightarrow> string" where
  "canonical l =
     (if l = ''__lat'' then ''latitude'' else if l = ''__lon'' then ''longitude'' else l)"

text \<open>
  The rest of \<^verbatim>\<open>parse_csv\<close>, on the frame \<open>df\<close> that \<^verbatim>\<open>pd.read_csv\<close> returned and the
  two labels found, statement by statement:
  \<^verbatim>\<open>
  tmp = df.copy()
  tmp["__lat"] = pd.to_numeric(tmp[lat_col], errors="coerce")
  tmp["__lon"] = pd.to_numeric(tmp[lon_col], errors="coerce")
  \<close>
  \<open>lat_values\<close> and \<open>lon_values\<close> are the two series assigned, \<open>tmp_lat\<close> is \<^verbatim>\<open>tmp\<close>
  after the first assignment and \<open>tmp_frame\<close> after the second; the second series is
  read from \<^verbatim>\<open>tmp\<close> as the first assignment left it.
\<close>

definition lat_values :: "(string \<Rightarrow> fl option) \<Rightarrow> dataframe \<Rightarrow> string \<Rightarrow> fl list" where
  "lat_values rd df lat = to_numeric rd (getcol df lat)"

definition tmp_lat :: "(string \<Rightarrow> fl option) \<Rightarrow> dataframe \<Rightarrow> string \<Rightarrow> dataframe" where
  "tmp_lat rd df lat = setcol ''__lat'' (lat_values rd df lat) df"

definition lon_values ::
    "(string \<Rightarrow> fl option) \<Rightarrow> dataframe \<Rightarrow> string \<Rightarrow> string \<Rightarrow> fl list" where
  "lon_values rd df lat lon = to_numeric rd (getcol (tmp_lat rd df lat) lon)"

definition tmp_frame ::
    "(string \<Rightarrow> fl option) \<Rightarrow> dataframe \<Rightarrow> string \<Rightarrow> string \<Rightarrow> dataframe" where
  "tmp_frame rd df lat lon = setcol ''__lon'' (lon_values rd df lat lon) (tmp_lat rd df lat)"

text \<open>
  \<^verbatim>\<open>
  mask = (
      tmp["__lat"].notna() & tmp["__lon"].notna()
      & tmp["__lat"].between(-90, 90) & tmp["__lon"].between(-180, 180)
  )
  \<close>
  The two series the mask reads back from \<^verbatim>\<open>tmp\<close> are the ones just stored there.
\<close>

definition row_mask :: "fl \<times> fl \<Rightarrow> bool" where
  "row_mask p \<longleftrightarrow>
     notna (fst p) \<and> notna (snd p) \<and> between (fst p) (- 90) 90 \<and> between (snd p) (- 180) 180"

definition coord_mask ::
    "(string \<Rightarrow> fl option) \<Rightarrow> dataframe \<Rightarrow> string \<Rightarrow> string \<Rightarrow> bool list" where
  "coord_mask rd df lat lon =
     map row_mask (zip (lat_values rd df lat) (lon_values rd df lat lon))"

text \<open>
  \<^verbatim>\<open>
  valid = tmp.loc[mask].copy()
  valid.rename(columns={"__lat":"latitude","__lon":"longitude"}, inplace=True)
  valid.drop(columns=["__lat","__lon"], inplace=True, errors="ignore")
  \<close>
\<close>

definition valid_frame ::
    "(string \<Rightarrow> fl option) \<Rightarrow> dataframe \<Rightarrow> string \<Rightarrow> string \<Rightarrow> dataframe" where
  "valid_frame rd df lat lon =
     drop_columns [''__lat'', ''__lon'']
       (rename canonical (loc (coord_mask rd df lat lon) (tmp_frame rd df lat lon)))"

text \<open>
  \<^verbatim>\<open>
  postal_candidates = [c for c in valid.columns if any(t in c.lower()
                       for t in ["postal","postal code","zip","zip code","zipcode","post_code","pincode","zip_code"])]
  postal_col = postal_candidates[0] if postal_candidates else None
  name_candidates = [c for c in valid.columns if c.lower() in ["name","title","label","location_name"]]
  name_col = name_candidates[0] if name_candidates else None
  return valid, int(mask.sum()), int(len(df) - mask.sum()), postal_col, name_col, lat_col, lon_col
  \<close>
  \<open>clean\<close> is \<^verbatim>\<open>parse_csv\<close> from the frame read to the tuple returned.
\<close>

definition detect_postal :: "dataframe \<Rightarrow> string option" where
  "detect_postal v =
     first_or_none
       (filter (\<lambda>c. list_ex (\<lambda>t. contains t (lower c)) postal_tokens) (labels v))"

definition detect_name :: "dataframe \<Rightarrow> string option" where
  "detect_name v = first_or_none (filter (\<lambda>c. lower c \<in> set name_tokens) (labels v))"

definition clean :: "(string \<Rightarrow> fl option) \<Rightarrow> dataframe \<Rightarrow> load_result" where
  "clean rd df =
     (case resolve df of
        None \<Rightarrow>
          \<lparr>valid_df = DataFrame, valid_count = 0, invalid_count = len df,
           res_postal_col = None, res_name_col = None, res_lat_col = None,
           res_lon_col = None\<rparr>
      | Some (lat, lon) \<Rightarrow>
          (let v = valid_frame rd df lat lon;
               mask_sum = int (length (filter (\<lambda>b. b) (coord_mask rd df lat lon)))
           in \<lparr>valid_df = v, valid_count = mask_sum, invalid_count = len df - mask_sum,
               res_postal_col = detect_postal v, res_name_col = detect_name v,
               res_lat_col = Some lat, res_lon_col = Some lon\<rparr>))"

text \<open>
  \<^verbatim>\<open>parse_csv(path_or_buf)\<close> starts with \<^verbatim>\<open>df = pd.read_csv(path_or_buf)\<close>. The reader is
  the parameter \<open>read_csv\<close>: for a path it gives the frame read, or the exception the
  library raises on a file it cannot parse. \<^verbatim>\<open>parse_csv\<close> has no handler, so the
  exception leaves it.
\<close>

definition parse_csv ::
    "(string \<Rightarrow> fl option) \<Rightarrow> (string \<Rightarrow> py_error + dataframe) \<Rightarrow> string
      \<Rightarrow> py_error + load_result" where
  "parse_csv rd read_csv path_or_buf =
     (case read_csv path_or_buf of
        Inl e \<Rightarrow> Inl e
      | Inr df \<Rightarrow> Inr (clean rd df))"

section \<open>Popups and tooltips\<close>

text \<open>
  What the interpreter and the libraries do with text is not part of the repository and is
  a parameter of the model: how \<^verbatim>\<open>float\<close> reads a string, how \<^verbatim>\<open>pd.to_numeric\<close> reads one,
  how a number is written with the format \<^verbatim>\<open>.6f\<close>, and how a value is written by a bare
  \<^verbatim>\<open>{...}\<close> of an f-string.
\<close>

record pylib =
  float_str :: "string \<Rightarrow> fl option"
  numeric_str :: "string \<Rightarrow> fl option"
  format6 :: "fl \<Rightarrow> string"
  str_value :: "cell \<Rightarrow> string"

definition and_then :: "py_error + 'a \<Rightarrow> ('a \<Rightarrow> py_error + 'b) \<Rightarrow> py_error + 'b" where
  "and_then r f = (case r of Inl e \<Rightarrow> Inl e | Inr x \<Rightarrow> f x)"

text \<open>
  \<^verbatim>\<open>row[k]\<close> on a row: \<^verbatim>\<open>KeyError\<close> when no column has the label, the value when one has,
  and a series of values when several have. \<^verbatim>\<open>row.get(k, None)\<close> gives \<^verbatim>\<open>None\<close> instead
  of the exception.
\<close>

datatype lookup = One cell | Many "cell list"

definition getitem :: "series \<Rightarrow> string \<Rightarrow> py_error + lookup" where
  "getitem row k =
     (case map snd (filter (\<lambda>(l, c). l = k) row) of
        [] \<Rightarrow> Inl (KeyError k)
      | [c] \<Rightarrow> Inr (One c)
      | cs \<Rightarrow> Inr (Many cs))"

definition get :: "series \<Rightarrow> string \<Rightarrow> lookup option" where
  "get row k = (case getitem row k of Inl e \<Rightarrow> None | Inr v \<Rightarrow> Some v)"

text \<open>
  \<^verbatim>\<open>pd.notna(v)\<close> as the condition of an \<^verbatim>\<open>if\<close>: a series there raises \<^verbatim>\<open>ValueError\<close>
  (its truth value is ambiguous).
\<close>

fun notna_truth :: "lookup \<Rightarrow> py_error + bool" where
  "notna_truth (One (Num x)) = Inr (notna x)"
| "notna_truth (One (Str s)) = Inr True"
| "notna_truth (Many cs) = Inl ValueError"

text \<open>
  The guard \<^verbatim>\<open>col and col in row and pd.notna(row[col])\<close> followed by the text
  \<^verbatim>\<open>f"{pre}{row[col]}{suf}"\<close>; the empty string when the guard is false.
\<close>

definition optional_line ::
    "pylib \<Rightarrow> series \<Rightarrow> string option \<Rightarrow> string \<Rightarrow> string \<Rightarrow> py_error + string" where
  "optional_line L row col pre suf =
     (case col of
        None \<Rightarrow> Inr []
      | Some k \<Rightarrow>
          if k = [] \<or> k \<notin> set (map fst row) then Inr []
          else and_then (getitem row k) (\<lambda>v.
               and_then (notna_truth v) (\<lambda>b.
               if b then (case v of One c \<Rightarrow> Inr (pre @ str_value L c @ suf)
                                  | Many cs \<Rightarrow> Inl ValueError)
               else Inr [])))"

text \<open>\<^verbatim>\<open>f"{v:.6f}"\<close>: a string has no such format, and neither has a series.\<close>

fun fixed6 :: "pylib \<Rightarrow> lookup \<Rightarrow> py_error + string" where
  "fixed6 L (One (Num x)) = Inr (format6 L x)"
| "fixed6 L (One (Str s)) = Inl ValueError"
| "fixed6 L (Many cs) = Inl TypeError"

text \<open>
  \<^verbatim>\<open>
  def popup_html(row, postal_col=None, name_col=None):
      parts = ["<div class='cluster-popup'>", "<b>(pin) Location Details</b><br>"]
      if name_col and name_col in row and pd.notna(row[name_col]):
          parts.append(f"<b>Name:</b> {row[name_col]}<br>")
      parts.append(f"<b>Latitude:</b> {row['Latitude']:.6f}<br>")
      parts.append(f"<b>Longitude:</b> {row['Longitude']:.6f}<br>")
      if postal_col and postal_col in row and pd.notna(row[postal_col]):
          parts.append(f"<b>Postal Code:</b> {row[postal_col]}<br>")
      if "state" in row and pd.notna(row["state"]):   parts.append(f"<b>State:</b> {row['state']}<br>")
      if "city"  in row and pd.notna(row["city"]):    parts.append(f"<b>City:</b> {row['city']}<br>")
      if "address" in row and pd.notna(row["address"]): parts.append(f"<b>Address:</b> {row['address']}<br>")
      parts.append("</div>")
      return "".join(parts)
  \<close>
  The pin of the title is one character outside ASCII, four bytes in UTF-8.
\<close>

definition popup_title :: string where
  "popup_title =
     ''<b>'' @ [char_of (240 :: nat), char_of (159 :: nat), char_of (147 :: nat), char_of (141 :: nat)]
       @ '' Location Details</b><br>''"

definition popup_html ::
    "pylib \<Rightarrow> series \<Rightarrow> string option \<Rightarrow> string option \<Rightarrow> py_error + string" where
  "popup_html L row postal_col name_col =
     and_then (optional_line L row name_col ''<b>Name:</b> '' ''<br>'') (\<lambda>nm.
     and_then (getitem row ''Latitude'') (\<lambda>lat_val.
     and_then (fixed6 L lat_val) (\<lambda>lat.
     and_then (getitem row ''Longitude'') (\<lambda>lon_val.
     and_then (fixed6 L lon_val) (\<lambda>lon.
     and_then (optional_line L row postal_col ''<b>Postal Code:</b> '' ''<br>'') (\<lambda>pc.
     and_then (optional_line L row (Some ''state'') ''<b>State:</b> '' ''<br>'') (\<lambda>st.
     and_then (optional_line L row (Some ''city'') ''<b>City:</b> '' ''<br>'') (\<lambda>ci.
     and_then (optional_line L row (Some ''address'') ''<b>Address:</b> '' ''<br>'') (\<lambda>ad.
     Inr (concat
       [''<div class='' @ [CHR 0x27] @ ''cluster-popup'' @ [CHR 0x27] @ ''>'', popup_title, nm,
        ''<b>Latitude:</b> '' @ lat @ ''<br>'',
        ''<b>Longitude:</b> '' @ lon @ ''<br>'',
        pc, st, ci, ad, ''</div>'']))))))))))"

text \<open>
  \<^verbatim>\<open>float(v)\<close> on a value read from a row.
\<close>

fun float_lookup :: "pylib \<Rightarrow> lookup \<Rightarrow> py_error + fl" where
  "float_lookup L (One (Num x)) = Inr x"
| "float_lookup L (One (Str s)) =
     (case float_str L s of None \<Rightarrow> Inl ValueError | Some x \<Rightarrow> Inr x)"
| "float_lookup L (Many cs) = Inl TypeError"

text \<open>
  \<^verbatim>\<open>
  def tooltip_html(row, postal_col=None, name_col=None):
      name_line = ""
      if name_col and name_col in row and pd.notna(row[name_col]):
          name_line = f"<b>{row[name_col]}</b><br>"
      lat_val = row.get("latitude", None)
      lon_val = row.get("longitude", None)
      latlon_line = "Latitude: n/a, Longitude: n/a"
      if lat_val is not None and lon_val is not None:
          latlon_line = f"Latitude: {float(lat_val):.6f}, Longitude: {float(lon_val):.6f}"
      postal_line = ""
      if postal_col and postal_col in row and pd.notna(row[postal_col]):
          postal_line = f"<br>Postal Code: {row[postal_col]}"
      return f"{name_line}{latlon_line}{postal_line}"
  \<close>
\<close>

definition tooltip_html ::
    "pylib \<Rightarrow> series \<Rightarrow> string option \<Rightarrow> string option \<Rightarrow> py_error + string" where
  "tooltip_html L row postal_col name_col =
     and_then (optional_line L row name_col ''<b>'' ''</b><br>'') (\<lambda>name_line.
     and_then
       (case (get row ''latitude'', get row ''longitude'') of
          (Some lat_val, Some lon_val) \<Rightarrow>
            and_then (float_lookup L lat_val) (\<lambda>x.
            and_then (float_lookup L lon_val) (\<lambda>y.
            Inr (''Latitude: '' @ format6 L x @ '', Longitude: '' @ format6 L y)))
        | _ \<Rightarrow> Inr ''Latitude: n/a, Longitude: n/a'') (\<lambda>latlon_line.
     and_then (optional_line L row postal_col ''<br>Postal Code: '' []) (\<lambda>postal_line.
     Inr (name_line @ latlon_line @ postal_line))))"

section \<open>Layers and the map\<close>

record marker =
  marker_location :: "fl \<times> fl"
  tooltip :: string
  popup :: string
  icon_color :: string

record cluster_options =
  maxClusterRadius :: int
  spiderfyOnMaxZoom :: bool
  showCoverageOnHover :: bool
  zoomToBoundsOnClick :: bool

datatype child =
    FastMarkerCluster string "cell list list"
  | MarkerCluster string cluster_options "marker list"

record layer =
  group_name :: string
  children :: "child list"

text \<open>
  The map library checks the location of a marker and of a map: each coordinate must
  convert with \<^verbatim>\<open>float\<close> and must not be \<^verbatim>\<open>nan\<close>; otherwise it raises \<^verbatim>\<open>ValueError\<close>.
\<close>

definition coordinate :: "pylib \<Rightarrow> lookup \<Rightarrow> py_error + fl" where
  "coordinate L v =
     (case float_lookup L v of
        Inl e \<Rightarrow> Inl ValueError
      | Inr x \<Rightarrow> if x = NaN then Inl ValueError else Inr x)"

text \<open>
  One pass through the loop of \<^verbatim>\<open>add_layer\<close>: the arguments of \<^verbatim>\<open>folium.Marker\<close> are
  evaluated from left to right, then the marker is built.
  \<^verbatim>\<open>
  folium.Marker(
      [r["latitude"], r["longitude"]],
      tooltip=folium.Tooltip(tooltip_html(r, postal_col, name_col), sticky=True, direction="top"),
      popup=folium.Popup(popup_html(r, postal_col, name_col), max_width=320),
      icon=folium.Icon(color=color, icon="home", prefix="fa")
  ).add_to(cl)
  \<close>
\<close>

definition make_marker ::
    "pylib \<Rightarrow> string \<Rightarrow> string option \<Rightarrow> string option \<Rightarrow> series \<Rightarrow> py_error + marker" where
  "make_marker L color postal_col name_col r =
     and_then (getitem r ''latitude'') (\<lambda>a.
     and_then (getitem r ''longitude'') (\<lambda>b.
     and_then (tooltip_html L r postal_col name_col) (\<lambda>t.
     and_then (popup_html L r postal_col name_col) (\<lambda>p.
     and_then (coordinate L a) (\<lambda>x.
     and_then (coordinate L b) (\<lambda>y.
     Inr \<lparr>marker_location = (x, y), tooltip = t, popup = p, icon_color = color\<rparr>))))))"

fun make_markers ::
    "pylib \<Rightarrow> string \<Rightarrow> string option \<Rightarrow> string option \<Rightarrow> series list
      \<Rightarrow> py_error + marker list" where
  "make_markers L color postal_col name_col [] = Inr []"
| "make_markers L color postal_col name_col (r # rs) =
     (case make_marker L color postal_col name_col r of
        Inl e \<Rightarrow> Inl e
      | Inr m \<Rightarrow>
          (case make_markers L color postal_col name_col rs of
             Inl e \<Rightarrow> Inl e
           | Inr ms \<Rightarrow> Inr (m # ms)))"

text \<open>
  \<^verbatim>\<open>df[[k1, k2]]\<close>: the columns with these labels, in the order of the labels asked for;
  \<^verbatim>\<open>KeyError\<close> when a label is missing.
\<close>

definition select :: "string list \<Rightarrow> dataframe \<Rightarrow> py_error + dataframe" where
  "select ks df =
     (case filter (\<lambda>k. k \<notin> set (labels df)) ks of
        k # _ \<Rightarrow> Inl (KeyError k)
      | [] \<Rightarrow>
          Inr \<lparr>columns = concat (map (\<lambda>k. filter (\<lambda>(l, t). l = k) (columns df)) ks),
               rows = map (\<lambda>r. concat (map (\<lambda>k. filter (\<lambda>(l, c). l = k) r) ks)) (rows df)\<rparr>)"

definition fixed_options :: cluster_options where
  "fixed_options =
     \<lparr>maxClusterRadius = 50, spiderfyOnMaxZoom = True, showCoverageOnHover = True,
      zoomToBoundsOnClick = True\<rparr>"

text \<open>
  \<^verbatim>\<open>
  def add_layer(df, color, layer_name, cluster=True, fast=False, postal_col=None, name_col=None):
      layer = folium.FeatureGroup(name=layer_name, overlay=True, control=True)
      if df.empty:
          return layer
      if cluster and fast:
          pts = df[["latitude","longitude"]].to_numpy().tolist()
          FastMarkerCluster(pts, name=f"{layer_name} Fast").add_to(layer)
          return layer
      cl = MarkerCluster(
          name=f"{layer_name} Clusters", overlay=True, control=False,
          options={'maxClusterRadius':50,'spiderfyOnMaxZoom':True,'showCoverageOnHover':True,'zoomToBoundsOnClick':True}
      )
      layer.add_child(cl)
      for _, r in df.iterrows():
          folium.Marker(...).add_to(cl)
      return layer
  \<close>
\<close>

definition add_layer ::
    "pylib \<Rightarrow> dataframe \<Rightarrow> string \<Rightarrow> string \<Rightarrow> bool \<Rightarrow> bool \<Rightarrow> string option \<Rightarrow> string option
      \<Rightarrow> py_error + layer" where
  "add_layer L df color layer_name cluster fast postal_col name_col =
     (if empty_frame df then Inr \<lparr>group_name = layer_name, children = []\<rparr>
      else if cluster \<and> fast then
        and_then (select [''latitude'', ''longitude''] df) (\<lambda>sel.
        Inr \<lparr>group_name = layer_name,
             children =
               [FastMarkerCluster (layer_name @ '' Fast'') (map (map snd) (rows sel))]\<rparr>)
      else
        and_then (make_markers L color postal_col name_col (rows df)) (\<lambda>ms.
        Inr \<lparr>group_name = layer_name,
             children = [MarkerCluster (layer_name @ '' Clusters'') fixed_options ms]\<rparr>))"

text \<open>
  \<^verbatim>\<open>pd.concat(frames, ignore_index=True)\<close> raises \<^verbatim>\<open>ValueError\<close> on an empty list; the
  frames handed to it here all carry the same selected columns, and their rows follow
  each other.
\<close>

definition concat_frames :: "dataframe list \<Rightarrow> py_error + dataframe" where
  "concat_frames ds =
     (case ds of
        [] \<Rightarrow> Inl ValueError
      | d # rest \<Rightarrow>
          if list_all (\<lambda>d'. labels d' = labels d) rest
          then Inr \<lparr>columns = columns d, rows = concat (map rows (d # rest))\<rparr>
          else Inl ValueError)"

text \<open>
  \<^verbatim>\<open>s.mean()\<close> skips missing values; \<open>col_mean\<close> is \<^verbatim>\<open>df[k].mean()\<close>, which is a single
  number when one column has the label and a series of means when several have.
\<close>

fun fin :: "fl \<Rightarrow> rat" where
  "fin (Fin r) = r"
| "fin _ = 0"

definition mean :: "fl list \<Rightarrow> fl" where
  "mean vs =
     (let xs = filter notna vs
      in if xs = [] then NaN
         else if PInf \<in> set xs \<and> NInf \<in> set xs then NaN
         else if PInf \<in> set xs then PInf
         else if NInf \<in> set xs then NInf
         else Fin (sum_list (map fin xs) / of_nat (length xs)))"

fun cell_num :: "cell \<Rightarrow> fl option" where
  "cell_num (Num x) = Some x"
| "cell_num (Str s) = None"

definition series_mean :: "cell list \<Rightarrow> py_error + fl" where
  "series_mean cs =
     (if list_all (\<lambda>c. cell_num c \<noteq> None) cs
      then Inr (mean (map (\<lambda>c. case c of Num x \<Rightarrow> x | Str s \<Rightarrow> NaN) cs))
      else Inl TypeError)"

datatype meanv = Scalar fl | SeriesOfMeans

definition col_mean :: "dataframe \<Rightarrow> string \<Rightarrow> py_error + meanv" where
  "col_mean df k =
     (case filter (\<lambda>l. l = k) (labels df) of
        [] \<Rightarrow> Inl (KeyError k)
      | [l] \<Rightarrow> and_then (series_mean (getcol df k)) (\<lambda>m. Inr (Scalar m))
      | _ \<Rightarrow> Inr SeriesOfMeans)"

datatype map_child = Layer layer | Fullscreen | LayerControl

record folium_map =
  map_location :: "fl \<times> fl"
  zoom_start :: int
  map_children :: "map_child list"

text \<open>\<^verbatim>\<open>folium.Map(location=[a, b], zoom_start=z)\<close>, with the library's check of the location.\<close>

definition Map :: "meanv \<Rightarrow> meanv \<Rightarrow> int \<Rightarrow> py_error + folium_map" where
  "Map a b z =
     (case (a, b) of
        (Scalar x, Scalar y) \<Rightarrow>
          if x = NaN \<or> y = NaN then Inl ValueError
          else Inr \<lparr>map_location = (x, y), zoom_start = z, map_children = []\<rparr>
      | _ \<Rightarrow> Inl ValueError)"

text \<open>
  \<^verbatim>\<open>
  def build_map(url_df, store_df, cluster=True, fast_csv=False,
                postal1=None, postal2=None, name1=None, name2=None):
      if url_df.empty and store_df.empty:
          return folium.Map(location=[20,0], zoom_start=2)
      base = pd.concat(
          [url_df[["latitude","longitude"]]] if not url_df.empty else [] +
          [store_df[["latitude","longitude"]]] if not store_df.empty else [],
          ignore_index=True
      )
      m = folium.Map(location=[base["latitude"].mean(), base["longitude"].mean()], zoom_start=9)
      add_layer(url_df,   "green", "URL Data (Green)",  cluster, fast_csv, postal1, name1).add_to(m)
      add_layer(store_df, "blue",  "Store Data (Blue)", cluster, fast_csv, postal2, name2).add_to(m)
      folium.plugins.Fullscreen(position='topright').add_to(m)
      folium.LayerControl(collapsed=False).add_to(m)
      return m
  \<close>
  A conditional expression binds weaker than \<^verbatim>\<open>+\<close> and nests to the right, so the first
  argument of \<^verbatim>\<open>pd.concat\<close> reads
  \<^verbatim>\<open>[url] if not url_df.empty else (([] + [store]) if not store_df.empty else [])\<close>:
  this is \<open>base_frames\<close>.
\<close>

definition base_frames :: "dataframe \<Rightarrow> dataframe \<Rightarrow> py_error + dataframe list" where
  "base_frames url_df store_df =
     (if \<not> empty_frame url_df
      then and_then (select [''latitude'', ''longitude''] url_df) (\<lambda>u. Inr [u])
      else if \<not> empty_frame store_df
      then and_then (select [''latitude'', ''longitude''] store_df) (\<lambda>s. Inr ([] @ [s]))
      else Inr [])"

definition build_map ::
    "pylib \<Rightarrow> dataframe \<Rightarrow> dataframe \<Rightarrow> bool \<Rightarrow> bool
      \<Rightarrow> string option \<Rightarrow> string option \<Rightarrow> string option \<Rightarrow> string option
      \<Rightarrow> py_error + folium_map" where
  "build_map L url_df store_df cluster fast_csv postal1 postal2 name1 name2 =
     (if empty_frame url_df \<and> empty_frame store_df
      then Inr \<lparr>map_location = (Fin 20, Fin 0), zoom_start = 2, map_children = []\<rparr>
      else
        and_then (base_frames url_df store_df) (\<lambda>frames.
        and_then (concat_frames frames) (\<lambda>base.
        and_then (col_mean base ''latitude'') (\<lambda>mlat.
        and_then (col_mean base ''longitude'') (\<lambda>mlon.
        and_then (Map mlat mlon 9) (\<lambda>m.
        and_then (add_layer L url_df ''green'' ''URL Data (Green)'' cluster fast_csv
                    postal1 name1) (\<lambda>l1.
        and_then (add_layer L store_df ''blue'' ''Store Data (Blue)'' cluster fast_csv
                    postal2 name2) (\<lambda>l2.
        Inr (m\<lparr>map_children := [Layer l1, Layer l2, Fullscreen, LayerControl]\<rparr>)))))))))"

section \<open>The dashboard\<close>

text \<open>
  The files on disk, as \<^verbatim>\<open>main\<close> sees them: whether a path exists, and what
  \<^verbatim>\<open>pd.read_csv\<close> does with it (a frame, or the exception raised on a file that cannot be
  parsed).
\<close>

record disk =
  path_exists :: "string \<Rightarrow> bool"
  pd_read_csv :: "string \<Rightarrow> py_error + dataframe"

definition PATH_STORE_CSV :: string where
  "PATH_STORE_CSV = ''Gerzeny_store.csv''"

definition PATH_URL_CSV :: string where
  "PATH_URL_CSV = ''Spoutro August 2025 1(in).csv''"

text \<open>
  One of the two loading steps of \<^verbatim>\<open>main\<close>, after the initial values
  \<^verbatim>\<open>url_df = pd.DataFrame()\<close>, \<^verbatim>\<open>url_ok = url_bad = 0\<close>, \<^verbatim>\<open>postal1 = name1 = None\<close>:
  \<^verbatim>\<open>
  if PATH_URL_CSV and os.path.exists(PATH_URL_CSV):
      url_df, url_ok, url_bad, postal1, name1, _, _ = parse_csv(PATH_URL_CSV)
  else:
      st.warning(f"URL Data file not found at: {PATH_URL_CSV}")
  \<close>
  The result is what \<^verbatim>\<open>parse_csv\<close> returned (\<^verbatim>\<open>main\<close> ignores the last two components) or
  the initial values, and the warnings shown. The cache that
  decorates \<^verbatim>\<open>parse_csv\<close> only spares a second reading of the same file and is not
  modelled.
\<close>

definition initial :: load_result where
  "initial =
     \<lparr>valid_df = DataFrame, valid_count = 0, invalid_count = 0,
      res_postal_col = None, res_name_col = None, res_lat_col = None, res_lon_col = None\<rparr>"

definition load ::
    "pylib \<Rightarrow> disk \<Rightarrow> string \<Rightarrow> string \<Rightarrow> py_error + load_result \<times> string list" where
  "load L fs path what =
     (if path \<noteq> [] \<and> path_exists fs path
      then and_then (parse_csv (numeric_str L) (pd_read_csv fs) path) (\<lambda>r.
           Inr (r, []))
      else Inr (initial, [what @ '' file not found at: '' @ path]))"

text \<open>
  The two average metrics (\<open>tot\<close> is \<^verbatim>\<open>total\<close>): \<^verbatim>\<open>df.get(k)\<close> is \<^verbatim>\<open>None\<close> when no column has the label, the
  column when one has, and a frame when several have (the mean of that is not a number,
  and formatting it raises \<^verbatim>\<open>TypeError\<close>).
  \<^verbatim>\<open>
  if total:
      lat_all = pd.concat([s for s in [url_df.get("latitude"), store_df.get("latitude")]
                           if s is not None], ignore_index=True)
      st.metric("Avg Latitude", f"{lat_all.mean():.6f}")
  else: st.metric("Avg Latitude", "(dash)")
  \<close>
\<close>

datatype colsel = NoCol | Col "cell list" | Cols

definition frame_get :: "dataframe \<Rightarrow> string \<Rightarrow> colsel" where
  "frame_get df k =
     (case filter (\<lambda>l. l = k) (labels df) of
        [] \<Rightarrow> NoCol
      | [l] \<Rightarrow> Col (getcol df k)
      | _ \<Rightarrow> Cols)"

fun concat_series :: "colsel list \<Rightarrow> py_error + cell list" where
  "concat_series [] = Inr []"
| "concat_series (NoCol # ss) = concat_series ss"
| "concat_series (Col cs # ss) =
     (case concat_series ss of Inl e \<Rightarrow> Inl e | Inr rest \<Rightarrow> Inr (cs @ rest))"
| "concat_series (Cols # ss) = Inl TypeError"

definition dash :: string where
  "dash = [char_of (226 :: nat), char_of (128 :: nat), char_of (148 :: nat)]"

definition avg_metric ::
    "pylib \<Rightarrow> int \<Rightarrow> dataframe \<Rightarrow> dataframe \<Rightarrow> string \<Rightarrow> py_error + string" where
  "avg_metric L tot url_df store_df k =
     (if tot \<noteq> 0 then
        (let sels = filter (\<lambda>s. s \<noteq> NoCol) [frame_get url_df k, frame_get store_df k]
         in if sels = [] then Inl ValueError
            else and_then (concat_series sels) (\<lambda>cs.
                 and_then (series_mean cs) (\<lambda>m. Inr (format6 L m))))
      else Inr dash)"

text \<open>
  The previews at the end of \<^verbatim>\<open>main\<close>:
  \<^verbatim>\<open>
  if not url_df.empty:
      st.write(f"Valid: {url_ok:,} | Invalid: {url_bad:,}")
      st.dataframe(url_df.head(25), use_container_width=True)
  else:
      st.info("No valid rows in URL Data.")
  \<close>
\<close>

datatype preview = NoValidRows | Shown int int "series list"

definition preview_of :: "load_result \<Rightarrow> preview" where
  "preview_of r =
     (if \<not> empty_frame (valid_df r)
      then Shown (valid_count r) (invalid_count r) (take 25 (rows (valid_df r)))
      else NoValidRows)"

record dashboard =
  warnings :: "string list"
  total_locations :: int
  avg_latitude :: string
  avg_longitude :: string
  fmap :: folium_map
  url_preview :: preview
  store_preview :: preview

text \<open>
  \<^verbatim>\<open>main\<close>, with the two check boxes of the side bar as arguments: the two loading
  steps, the total, the two averages, the map and the two previews, in this order. The
  postal-code metric and the postal-code chart, which only read the two frames and the
  postal labels, are not modelled. \<^verbatim>\<open>main\<close> has no exception handler: an exception of
  any step leaves it.
\<close>

definition main :: "pylib \<Rightarrow> disk \<Rightarrow> bool \<Rightarrow> bool \<Rightarrow> py_error + dashboard" where
  "main L fs cluster fast_csv =
     and_then (load L fs PATH_URL_CSV ''URL Data'') (\<lambda>(u, w1).
     and_then (load L fs PATH_STORE_CSV ''Store Data'') (\<lambda>(s, w2).
     (let tot = len (valid_df u) + len (valid_df s) in
      and_then (avg_metric L tot (valid_df u) (valid_df s) ''latitude'') (\<lambda>avg_lat.
      and_then (avg_metric L tot (valid_df u) (valid_df s) ''longitude'') (\<lambda>avg_lon.
      and_then (build_map L (valid_df u) (valid_df s) cluster fast_csv
                  (res_postal_col u) (res_postal_col s) (res_name_col u) (res_name_col s))
        (\<lambda>m.
      Inr \<lparr>warnings = w1 @ w2, total_locations = tot,
           avg_latitude = avg_lat, avg_longitude = avg_lon, fmap = m,
           url_preview = preview_of u, store_preview = preview_of s\<rparr>))))))"

section \<open>What the specification says\<close>

text \<open>
  The Schema Sniffer in the words of the specification: the latitude column is the first
  column whose lowercased name contains "lat" or "latitude", the longitude column the
  first whose lowercased name contains "lon", "long", "longitude" or "lng"; when either
  is unresolved, the first two numeric-typed columns in original order if at least two
  exist; otherwise unresolved.

  The two notions the specification uses are stated on their own, not through the
  functions of the program: \<open>lowercased\<close> moves the codes 65 to 90 (\<^verbatim>\<open>A\<close> to \<^verbatim>\<open>Z\<close>) up by 32
  and leaves every other character, and \<open>occurs_in t s\<close> says that \<open>t\<close> stands in \<open>s\<close> at
  some position.
\<close>

definition lowercased :: "string \<Rightarrow> string" where
  "lowercased s =
     map (\<lambda>c. if 65 \<le> (of_char c :: nat) \<and> (of_char c :: nat) \<le> 90
              then char_of ((of_char c :: nat) + 32) else c) s"

definition occurs_in :: "string \<Rightarrow> string \<Rightarrow> bool" where
  "occurs_in t s \<longleftrightarrow> list_ex (\<lambda>i. take (length t) (drop i s) = t) [0..<Suc (length s)]"

definition sniff_spec :: "dataframe \<Rightarrow> (string \<times> string) option" where
  "sniff_spec df =
     (let by_lat = find (\<lambda>c. occurs_in ''lat'' (lowercased c)
                              \<or> occurs_in ''latitude'' (lowercased c))
                     (labels df);
          by_lon = find (\<lambda>c. occurs_in ''lon'' (lowercased c) \<or> occurs_in ''long'' (lowercased c)
                              \<or> occurs_in ''longitude'' (lowercased c)
                              \<or> occurs_in ''lng'' (lowercased c))
                     (labels df);
          nums = [c. (c, t) \<leftarrow> columns df, t = Number]
      in if by_lat \<noteq> None \<and> by_lon \<noteq> None then Some (the by_lat, the by_lon)
         else if 2 \<le> length nums then Some (nums ! 0, nums ! 1)
         else None)"

text \<open>
  The centre of the composed map in the words of the specification: the arithmetic mean
  latitude and the mean longitude over the records of all non-empty layers combined.
\<close>

definition record_coordinate :: "string \<Rightarrow> series \<Rightarrow> fl" where
  "record_coordinate k r = (case map_of r k of Some (Num x) \<Rightarrow> x | _ \<Rightarrow> NaN)"

definition centroid_spec :: "dataframe \<Rightarrow> dataframe \<Rightarrow> fl \<times> fl" where
  "centroid_spec url_df store_df =
     (let records = (if empty_frame url_df then [] else rows url_df)
                    @ (if empty_frame store_df then [] else rows store_df)
      in (mean (map (record_coordinate ''latitude'') records),
          mean (map (record_coordinate ''longitude'') records)))"

section \<open>Examples\<close>

text \<open>
  A library instance for the examples: numbers are read by \<open>read_decimal\<close> and written
  with six decimals, rounded half to even; a string is written as it is.
\<close>

fun decimal :: "nat \<Rightarrow> string" where
  "decimal n =
     (if n < 10 then [char_of (48 + n)] else decimal (n div 10) @ [char_of (48 + n mod 10)])"

definition round_half_even :: "rat \<Rightarrow> int" where
  "round_half_even q =
     (let f = \<lfloor>q\<rfloor>; d = q - of_int f
      in if d > 1 / 2 \<or> (d = 1 / 2 \<and> odd f) then f + 1 else f)"

definition six_decimals :: "rat \<Rightarrow> string" where
  "six_decimals r =
     (let n = nat (round_half_even (\<bar>r\<bar> * 10 ^ 6));
          fs = decimal (n mod 10 ^ 6)
      in (if r < 0 then ''-'' else []) @ decimal (n div 10 ^ 6) @ ''.''
           @ replicate (6 - length fs) (CHR ''0'') @ fs)"

fun ex_format6 :: "fl \<Rightarrow> string" where
  "ex_format6 (Fin r) = six_decimals r"
| "ex_format6 PInf = ''inf''"
| "ex_format6 NInf = ''-inf''"
| "ex_format6 NaN = ''nan''"

fun ex_str :: "cell \<Rightarrow> string" where
  "ex_str (Str s) = s"
| "ex_str (Num x) = ex_format6 x"

definition ex_lib :: pylib where
  "ex_lib =
     \<lparr>float_str = read_decimal, numeric_str = read_decimal, format6 = ex_format6,
      str_value = ex_str\<rparr>"

text \<open>
  The file of the specification's example, as \<^verbatim>\<open>pd.read_csv\<close> returns it: the columns
  \<^verbatim>\<open>lat\<close>, \<^verbatim>\<open>lng\<close>, \<^verbatim>\<open>name\<close> and the rows \<^verbatim>\<open>(10,20,"A")\<close>, \<^verbatim>\<open>(91,20,"B")\<close>,
  \<^verbatim>\<open>("x","y","C")\<close>. The first two columns hold a value that is not a number, so all
  three columns hold strings.
\<close>

definition ex_csv :: dataframe where
  "ex_csv =
     \<lparr>columns = [(''lat'', Object), (''lng'', Object), (''name'', Object)],
      rows = [[(''lat'', Str ''10''), (''lng'', Str ''20''), (''name'', Str ''A'')],
              [(''lat'', Str ''91''), (''lng'', Str ''20''), (''name'', Str ''B'')],
              [(''lat'', Str ''x''), (''lng'', Str ''y''), (''name'', Str ''C'')]]\<rparr>"

text \<open>
  Two files of one row each, with numeric columns \<^verbatim>\<open>Latitude\<close> and \<^verbatim>\<open>Longitude\<close>: a
  record at \<open>(0, 0)\<close> and a record at \<open>(10, 10)\<close>.
\<close>

definition one_point :: "rat \<Rightarrow> rat \<Rightarrow> dataframe" where
  "one_point a b =
     \<lparr>columns = [(''Latitude'', Number), (''Longitude'', Number)],
      rows = [[(''Latitude'', Num (Fin a)), (''Longitude'', Num (Fin b))]]\<rparr>"

text \<open>
  What the loader returns for such a file when the point is within range, and the one
  record it returns for the example file.
\<close>

definition loaded_point :: "rat \<Rightarrow> rat \<Rightarrow> dataframe" where
  "loaded_point a b =
     \<lparr>columns = [(''Latitude'', Number), (''Longitude'', Number),
                 (''latitude'', Number), (''longitude'', Number)],
      rows = [[(''Latitude'', Num (Fin a)), (''Longitude'', Num (Fin b)),
               (''latitude'', Num (Fin a)), (''longitude'', Num (Fin b))]]\<rparr>"

definition ex_record :: series where
  "ex_record =
     [(''lat'', Str ''10''), (''lng'', Str ''20''), (''name'', Str ''A''),
      (''latitude'', Num (Fin 10)), (''longitude'', Num (Fin 20))]"

definition ex_loaded :: dataframe where
  "ex_loaded =
     \<lparr>columns = [(''lat'', Object), (''lng'', Object), (''name'', Object),
                 (''latitude'', Number), (''longitude'', Number)],
      rows = [ex_record]\<rparr>"

text \<open>A file with two numeric columns whose names say nothing, and a disk for \<^verbatim>\<open>main\<close>.\<close>

definition ex_unnamed :: dataframe where
  "ex_unnamed =
     \<lparr>columns = [(''id'', Object), (''y'', Number), (''x'', Number)],
      rows = [[(''id'', Str ''a''), (''y'', Num (Fin 45)), (''x'', Num (Fin 7))],
              [(''id'', Str ''b''), (''y'', Num (Fin 100)), (''x'', Num (Fin 7))]]\<rparr>"

definition ex_unusable :: dataframe where
  "ex_unusable =
     \<lparr>columns = [(''id'', Object), (''x'', Number)],
      rows = [[(''id'', Str ''a''), (''x'', Num (Fin 7))],
              [(''id'', Str ''b''), (''x'', Num (Fin 8))]]\<rparr>"

text \<open>
  Two files whose column names carry a token inside a longer name and in capitals. In the
  first only one column is numeric; in the second the first two numeric columns are not
  the ones the names point to.
\<close>

definition ex_mixed :: dataframe where
  "ex_mixed =
     \<lparr>columns = [(''ID'', Number), (''Site_LATITUDE_deg'', Object), (''East_Long'', Object),
                 (''Name'', Object)],
      rows = [[(''ID'', Num (Fin 1)), (''Site_LATITUDE_deg'', Str ''45.5''),
               (''East_Long'', Str ''7''), (''Name'', Str ''A'')]]\<rparr>"

definition ex_upper :: dataframe where
  "ex_upper =
     \<lparr>columns = [(''Code'', Number), (''LAT'', Object), (''Qty'', Number), (''LNG'', Object)],
      rows = [[(''Code'', Num (Fin 1)), (''LAT'', Str ''45''), (''Qty'', Num (Fin 3)),
               (''LNG'', Str ''7'')]]\<rparr>"

text \<open>
  Two files that already have a column named \<^verbatim>\<open>latitude\<close>: the file with the header
  \<^verbatim>\<open>latitude,longitude\<close> and the rows \<^verbatim>\<open>(10,20)\<close>, \<^verbatim>\<open>(x,y)\<close>, whose two columns hold strings,
  and the file with the header \<^verbatim>\<open>lat,lon,latitude\<close> and the row \<^verbatim>\<open>(10,20,500)\<close>; with each
  the one record the loader returns for it.
\<close>

definition ex_canonical :: dataframe where
  "ex_canonical =
     \<lparr>columns = [(''latitude'', Object), (''longitude'', Object)],
      rows = [[(''latitude'', Str ''10''), (''longitude'', Str ''20'')],
              [(''latitude'', Str ''x''), (''longitude'', Str ''y'')]]\<rparr>"

definition ex_canonical_record :: series where
  "ex_canonical_record =
     [(''latitude'', Str ''10''), (''longitude'', Str ''20''),
      (''latitude'', Num (Fin 10)), (''longitude'', Num (Fin 20))]"

definition ex_third :: dataframe where
  "ex_third =
     \<lparr>columns = [(''lat'', Number), (''lon'', Number), (''latitude'', Number)],
      rows = [[(''lat'', Num (Fin 10)), (''lon'', Num (Fin 20)), (''latitude'', Num (Fin 500))]]\<rparr>"

definition ex_third_record :: series where
  "ex_third_record =
     [(''lat'', Num (Fin 10)), (''lon'', Num (Fin 20)), (''latitude'', Num (Fin 500)),
      (''latitude'', Num (Fin 10)), (''longitude'', Num (Fin 20))]"

definition ex_disk :: "(string \<times> (py_error + dataframe)) list \<Rightarrow> disk" where
  "ex_disk files =
     \<lparr>path_exists = (\<lambda>p. p \<in> set (map fst files)),
      pd_read_csv = (\<lambda>p. case map_of files p of None \<Rightarrow> Inl ReadError | Some r \<Rightarrow> r)\<rparr>"

section \<open>Properties of coordinate validation\<close>

lemma fl_le_Fin_left: "fl_le (Fin a) x \<longleftrightarrow> x = PInf \<or> (\<exists>b. x = Fin b \<and> a \<le> b)"
  by (cases x) simp_all

lemma fl_le_Fin_right: "fl_le x (Fin b) \<longleftrightarrow> x = NInf \<or> (\<exists>a. x = Fin a \<and> a \<le> b)"
  by (cases x) simp_all

lemma fl_between_Fin:
  "fl_le (Fin lo) x \<and> fl_le x (Fin hi) \<longleftrightarrow> (\<exists>a. x = Fin a \<and> lo \<le> a \<and> a \<le> hi)"
  by (cases x) simp_all


section \<open>The loader, row by row\<close>

lemma zip_map_same: "zip (map f xs) (map g xs) = map (\<lambda>x. (f x, g x)) xs"
  by (induction xs) simp_all

lemma zip_map_same_left: "zip (map f xs) xs = map (\<lambda>x. (f x, x)) xs"
  by (induction xs) simp_all

lemma lat_values_rows:
  "lat_values rd df lat = map (\<lambda>r. to_numeric_cell rd (cell_at r lat)) (rows df)"
  by (simp add: lat_values_def to_numeric_def getcol_def)

lemma rows_tmp_lat:
  "rows (tmp_lat rd df lat) =
     map (\<lambda>r. put ''__lat'' (Num (to_numeric_cell rd (cell_at r lat))) r) (rows df)"
  by (simp add: tmp_lat_def setcol_def lat_values_rows zip_map_same_left)

lemma lon_values_rows:
  "lon_values rd df lat lon =
     map (\<lambda>r. to_numeric_cell rd
                (cell_at (put ''__lat'' (Num (to_numeric_cell rd (cell_at r lat))) r) lon))
       (rows df)"
  by (simp add: lon_values_def to_numeric_def getcol_def rows_tmp_lat)

lemma rows_tmp_frame:
  "rows (tmp_frame rd df lat lon) =
     map (\<lambda>r. put ''__lon''
                (Num (to_numeric_cell rd
                   (cell_at (put ''__lat'' (Num (to_numeric_cell rd (cell_at r lat))) r) lon)))
                (put ''__lat'' (Num (to_numeric_cell rd (cell_at r lat))) r))
       (rows df)"
  by (simp add: tmp_frame_def setcol_def lon_values_rows rows_tmp_lat zip_map_same)

lemma coord_mask_rows:
  "coord_mask rd df lat lon =
     map (\<lambda>r. row_mask (to_numeric_cell rd (cell_at r lat),
                to_numeric_cell rd
                  (cell_at (put ''__lat'' (Num (to_numeric_cell rd (cell_at r lat))) r) lon)))
       (rows df)"
  by (simp add: coord_mask_def lat_values_rows lon_values_rows zip_map_same)

lemma loc_rows_map:
  "map snd (filter fst (zip (map m xs) (map g xs))) = map g (filter m xs)"
  by (induction xs) simp_all

lemma rows_valid_frame:
  "rows (valid_frame rd df lat lon) =
     map (\<lambda>r. filter (\<lambda>(l, c). l \<notin> set [''__lat'', ''__lon''])
                (map (\<lambda>(l, c). (canonical l, c))
                   (put ''__lon''
                      (Num (to_numeric_cell rd
                         (cell_at (put ''__lat'' (Num (to_numeric_cell rd (cell_at r lat))) r) lon)))
                      (put ''__lat'' (Num (to_numeric_cell rd (cell_at r lat))) r))))
       (filter (\<lambda>r. row_mask (to_numeric_cell rd (cell_at r lat),
                to_numeric_cell rd
                  (cell_at (put ''__lat'' (Num (to_numeric_cell rd (cell_at r lat))) r) lon)))
          (rows df))"
  unfolding valid_frame_def drop_columns_def rename_def loc_def
  by (simp add: rows_tmp_frame coord_mask_rows loc_rows_map del: set_simps)

lemma length_rows_valid_frame:
  "length (rows (valid_frame rd df lat lon)) = length (filter (\<lambda>b. b) (coord_mask rd df lat lon))"
  unfolding rows_valid_frame coord_mask_rows by (simp add: filter_map comp_def)

lemma clean_None:
  assumes "resolve df = None"
  shows "clean rd df =
     \<lparr>valid_df = DataFrame, valid_count = 0, invalid_count = len df,
      res_postal_col = None, res_name_col = None, res_lat_col = None, res_lon_col = None\<rparr>"
  using assms by (simp add: clean_def)

lemma clean_Some:
  assumes "resolve df = Some (lat, lon)"
  shows "valid_df (clean rd df) = valid_frame rd df lat lon"
    and "valid_count (clean rd df) = int (length (filter (\<lambda>b. b) (coord_mask rd df lat lon)))"
    and "invalid_count (clean rd df) =
           len df - int (length (filter (\<lambda>b. b) (coord_mask rd df lat lon)))"
    and "res_lat_col (clean rd df) = Some lat"
    and "res_lon_col (clean rd df) = Some lon"
  using assms by (simp_all add: clean_def Let_def)

lemma put_mem: "(k, v) \<in> set (put k v r)"
  by (force simp: put_def image_iff)

lemma put_other: "(l, c) \<in> set r \<Longrightarrow> l \<noteq> k \<Longrightarrow> (l, c) \<in> set (put k v r)"
  by (force simp: put_def image_iff)

lemma put_fresh: "k \<notin> set (map fst r) \<Longrightarrow> put k v r = r @ [(k, v)]"
  by (simp add: put_def)

lemma cell_at_append_other: "k' \<noteq> k \<Longrightarrow> cell_at (r @ [(k, v)]) k' = cell_at r k'"
  by (simp add: cell_at_def map_add_def split: option.splits)

lemma row_mask_Fin:
  "row_mask (x, y) \<longleftrightarrow>
     (\<exists>a b. x = Fin a \<and> y = Fin b \<and> - 90 \<le> a \<and> a \<le> 90 \<and> - 180 \<le> b \<and> b \<le> 180)"
  unfolding row_mask_def between_def notna_def fst_conv snd_conv fl_between_Fin by auto

lemma valid_row_fields:
  assumes "r' \<in> set (rows (valid_frame rd df lat lon))"
  shows "\<exists>a b. (''latitude'', Num (Fin a)) \<in> set r' \<and> (''longitude'', Num (Fin b)) \<in> set r'
            \<and> - 90 \<le> a \<and> a \<le> 90 \<and> - 180 \<le> b \<and> b \<le> 180"
proof -
  from assms obtain r x y where
    r': "r' = filter (\<lambda>(l, c). l \<notin> set [''__lat'', ''__lon''])
                (map (\<lambda>(l, c). (canonical l, c)) (put ''__lon'' (Num y) (put ''__lat'' (Num x) r)))"
    and m: "row_mask (x, y)"
    unfolding rows_valid_frame by auto
  from m obtain a b where ab: "x = Fin a" "y = Fin b" "- 90 \<le> a" "a \<le> 90" "- 180 \<le> b" "b \<le> 180"
    unfolding row_mask_Fin by blast
  have "(''__lat'', Num x) \<in> set (put ''__lon'' (Num y) (put ''__lat'' (Num x) r))"
    by (rule put_other[OF put_mem]) simp
  then have 1: "(''latitude'', Num x) \<in> set r'"
    unfolding r' by (force simp: canonical_def)
  have "(''__lon'', Num y) \<in> set (put ''__lon'' (Num y) (put ''__lat'' (Num x) r))"
    by (rule put_mem)
  then have 2: "(''longitude'', Num y) \<in> set r'"
    unfolding r' by (force simp: canonical_def)
  from 1 2 ab show ?thesis by blast
qed


lemma foldl_detect_step:
  "foldl detect_step (a, b) cs =
     ((case a of None \<Rightarrow> find (\<lambda>c. list_ex (\<lambda>t. contains t (lower c)) lat_tokens) cs | Some x \<Rightarrow> Some x),
      (case b of None \<Rightarrow> find (\<lambda>c. list_ex (\<lambda>t. contains t (lower c)) lon_tokens) cs | Some y \<Rightarrow> Some y))"
  by (induction cs arbitrary: a b) (auto simp: detect_step_def Let_def split: option.splits)

lemma detect_find:
  "detect cs = (find (\<lambda>c. list_ex (\<lambda>t. contains t (lower c)) lat_tokens) cs,
                find (\<lambda>c. list_ex (\<lambda>t. contains t (lower c)) lon_tokens) cs)"
  by (simp add: detect_def foldl_detect_step)

lemma find_in_set: "find P xs = Some x \<Longrightarrow> x \<in> set xs"
  by (induction xs) (auto split: if_splits)

lemma select_number_subset: "set (select_number df) \<subseteq> set (labels df)"
  by (auto simp: select_number_def labels_def)

lemma resolve_in_labels:
  assumes "resolve df = Some (lat, lon)"
  shows "lat \<in> set (labels df)" and "lon \<in> set (labels df)"
  using assms select_number_subset[of df]
  by (auto simp: resolve_def detect_find split: option.splits list.splits dest: find_in_set)

lemma canonical_temp:
  "canonical ''__lat'' = ''latitude''" "canonical ''__lon'' = ''longitude''"
  by (simp_all add: canonical_def)

lemma map_canonical_id:
  assumes "''__lat'' \<notin> set (map fst r)" and "''__lon'' \<notin> set (map fst r)"
  shows "map (\<lambda>(l, c). (canonical l, c)) r = r"
  using assms by (induction r) (auto simp: canonical_def)

lemma filter_temp_id:
  assumes "''__lat'' \<notin> set (map fst r)" and "''__lon'' \<notin> set (map fst r)"
  shows "filter (\<lambda>(l, c). l \<notin> set [''__lat'', ''__lon'']) r = r"
  using assms by (induction r) auto

lemma finish_fresh_row:
  assumes "''__lat'' \<notin> set (map fst r)" and "''__lon'' \<notin> set (map fst r)" and "lon \<noteq> ''__lat''"
  shows "filter (\<lambda>(l, c). l \<notin> set [''__lat'', ''__lon''])
           (map (\<lambda>(l, c). (canonical l, c))
              (put ''__lon'' (Num (to_numeric_cell rd (cell_at (put ''__lat'' (Num x) r) lon)))
                 (put ''__lat'' (Num x) r)))
         = r @ [(''latitude'', Num x), (''longitude'', Num (to_numeric_cell rd (cell_at r lon)))]"
proof -
  have p1: "put ''__lat'' (Num x) r = r @ [(''__lat'', Num x)]"
    using assms(1) by (rule put_fresh)
  have "''__lon'' \<notin> set (map fst (r @ [(''__lat'', Num x)]))"
    using assms(2) by simp
  then have p2: "put ''__lon'' v (r @ [(''__lat'', Num x)]) = r @ [(''__lat'', Num x), (''__lon'', v)]" for v
    by (simp add: put_fresh)
  have "filter (\<lambda>(l, c). l \<notin> set [''__lat'', ''__lon''])
           (map (\<lambda>(l, c). (canonical l, c)) (r @ [(''__lat'', Num x), (''__lon'', v)]))
        = filter (\<lambda>(l, c). l \<notin> set [''__lat'', ''__lon'']) r
            @ [(''latitude'', Num x), (''longitude'', v)]" for v
    by (simp add: map_canonical_id[OF assms(1,2)] canonical_temp del: set_simps) simp
  then show ?thesis
    unfolding p1 p2 cell_at_append_other[OF assms(3)]
    by (simp only: filter_temp_id[OF assms(1,2)])
qed

lemma columns_valid_frame_fresh:
  assumes "''__lat'' \<notin> set (labels df)" and "''__lon'' \<notin> set (labels df)"
  shows "columns (valid_frame rd df lat lon) =
           columns df @ [(''latitude'', Number), (''longitude'', Number)]"
proof -
  have c1: "columns (tmp_lat rd df lat) = columns df @ [(''__lat'', Number)]"
    using assms(1) by (simp add: tmp_lat_def setcol_def)
  have "''__lon'' \<notin> set (labels (tmp_lat rd df lat))"
    using assms(2) by (simp add: labels_def c1)
  then have c2: "columns (tmp_frame rd df lat lon) =
      columns df @ [(''__lat'', Number), (''__lon'', Number)]"
    by (simp add: tmp_frame_def setcol_def c1)
  have a: "''__lat'' \<notin> set (map fst (columns df))" "''__lon'' \<notin> set (map fst (columns df))"
    using assms by (simp_all add: labels_def)
  have m: "map (\<lambda>(l, t). (canonical l, t)) cs = cs"
    if "''__lat'' \<notin> set (map fst cs)" "''__lon'' \<notin> set (map fst cs)" for cs :: "(string \<times> dtype) list"
    using that by (induction cs) (auto simp: canonical_def)
  have f: "filter (\<lambda>(l, t). l \<notin> set [''__lat'', ''__lon'']) cs = cs"
    if "''__lat'' \<notin> set (map fst cs)" "''__lon'' \<notin> set (map fst cs)" for cs :: "(string \<times> dtype) list"
    using that by (induction cs) auto
  have "columns (valid_frame rd df lat lon) =
        filter (\<lambda>(l, t). l \<notin> set [''__lat'', ''__lon''])
          (map (\<lambda>(l, t). (canonical l, t)) (columns df)
             @ [(''latitude'', Number), (''longitude'', Number)])"
    unfolding valid_frame_def drop_columns_def rename_def loc_def
    by (simp add: c2 canonical_temp del: set_simps)
  also have "\<dots> = columns df @ [(''latitude'', Number), (''longitude'', Number)]"
    unfolding m[OF a] by (simp add: f[OF a] del: set_simps) simp
  finally show ?thesis .
qed

lemma map_filter_cong:
  assumes "\<And>x. x \<in> set xs \<Longrightarrow> P x = Q x" and "\<And>x. x \<in> set xs \<Longrightarrow> F x = G x"
  shows "map F (filter P xs) = map G (filter Q xs)"
  using assms by (induction xs) auto

lemma rows_valid_frame_fresh:
  assumes wf: "wf_frame df" and res: "resolve df = Some (lat, lon)"
    and fresh: "''__lat'' \<notin> set (labels df)" "''__lon'' \<notin> set (labels df)"
  shows "rows (valid_frame rd df lat lon) =
     map (\<lambda>r. r @ [(''latitude'', Num (to_numeric_cell rd (cell_at r lat))),
                    (''longitude'', Num (to_numeric_cell rd (cell_at r lon)))])
       (filter (\<lambda>r. row_mask (to_numeric_cell rd (cell_at r lat),
                                to_numeric_cell rd (cell_at r lon)))
          (rows df))"
proof -
  have lon: "lon \<noteq> ''__lat''"
    using resolve_in_labels(2)[OF res] fresh(1) by auto
  have rowl: "map fst r = labels df" if "r \<in> set (rows df)" for r
    using wf that by (auto simp: wf_frame_def list_all_iff)
  have c: "cell_at (put ''__lat'' (Num x) r) lon = cell_at r lon" if "r \<in> set (rows df)" for r x
    using rowl[OF that] fresh(1) by (simp add: put_fresh cell_at_append_other[OF lon])
  have fin: "filter (\<lambda>(l, c). l \<notin> set [''__lat'', ''__lon''])
           (map (\<lambda>(l, c). (canonical l, c))
              (put ''__lon'' (Num (to_numeric_cell rd (cell_at (put ''__lat'' (Num x) r) lon)))
                 (put ''__lat'' (Num x) r)))
         = r @ [(''latitude'', Num x), (''longitude'', Num (to_numeric_cell rd (cell_at r lon)))]"
    if "r \<in> set (rows df)" for r x
    using rowl[OF that] fresh by (intro finish_fresh_row lon) simp_all
  show ?thesis
    unfolding rows_valid_frame
  proof (rule map_filter_cong)
    fix r assume "r \<in> set (rows df)"
    then show "row_mask (to_numeric_cell rd (cell_at r lat),
                to_numeric_cell rd
                  (cell_at (put ''__lat'' (Num (to_numeric_cell rd (cell_at r lat))) r) lon))
             = row_mask (to_numeric_cell rd (cell_at r lat), to_numeric_cell rd (cell_at r lon))"
      by (simp only: c)
  next
    fix r assume "r \<in> set (rows df)"
    then show "filter (\<lambda>(l, c). l \<notin> set [''__lat'', ''__lon''])
                (map (\<lambda>(l, c). (canonical l, c))
                   (put ''__lon''
                      (Num (to_numeric_cell rd
                         (cell_at (put ''__lat'' (Num (to_numeric_cell rd (cell_at r lat))) r) lon)))
                      (put ''__lat'' (Num (to_numeric_cell rd (cell_at r lat))) r)))
           = r @ [(''latitude'', Num (to_numeric_cell rd (cell_at r lat))),
                  (''longitude'', Num (to_numeric_cell rd (cell_at r lon)))]"
      by (rule fin)
  qed
qed

section \<open>The claims about the loader\<close>

lemma first_two:
  "(case xs of a # b # _ \<Rightarrow> Some (a, b) | _ \<Rightarrow> None)
     = (if 2 \<le> length xs then Some (xs ! 0, xs ! 1) else None)"
  by (auto split: list.splits)

lemma select_number_comprehension:
  "map fst (filter (\<lambda>(l, t). t = Number) cs) = [c. (c, t) \<leftarrow> cs, t = Number]"
  by (induction cs) auto

text \<open>
  The functions of the program that lowercase a name and look for a token in it are the
  two notions of the specification.
\<close>

lemma lower_char_arith:
  "lower_char c =
     (if 65 \<le> (of_char c :: nat) \<and> (of_char c :: nat) \<le> 90
      then char_of ((of_char c :: nat) + 32) else c)"
proof (cases c)
  case (Char b0 b1 b2 b3 b4 b5 b6 b7)
  show ?thesis
    unfolding Char
    by (cases b0; cases b1; cases b2; cases b3; cases b4; cases b5; cases b6; cases b7)
       (simp_all add: lower_char_def char_of_def bit_Suc_0_iff)
qed

lemma lower_lowercased: "lower s = lowercased s"
  by (simp add: lower_def lowercased_def lower_char_arith)

lemma starts_with_append: "starts_with t s \<longleftrightarrow> (\<exists>ss. s = t @ ss)"
  by (induction t s rule: starts_with.induct) auto

lemma contains_append: "contains t s \<longleftrightarrow> (\<exists>ps ss. s = ps @ t @ ss)"
proof (induction s)
  case Nil
  show ?case by auto
next
  case (Cons c s)
  have "(\<exists>ps ss. c # s = ps @ t @ ss) \<longleftrightarrow> (\<exists>ss. c # s = t @ ss) \<or> (\<exists>ps ss. s = ps @ t @ ss)"
    (is "?L \<longleftrightarrow> ?A \<or> ?B")
  proof
    assume ?L
    then obtain ps ss where e: "c # s = ps @ t @ ss" by blast
    show "?A \<or> ?B"
    proof (cases ps)
      case Nil
      with e show ?thesis by auto
    next
      case (Cons p ps')
      with e have "s = ps' @ t @ ss" by simp
      then show ?thesis by blast
    qed
  next
    assume "?A \<or> ?B"
    then show ?L
    proof
      assume ?A
      then obtain ss where "c # s = [] @ t @ ss" by auto
      then show ?L by blast
    next
      assume ?B
      then obtain ps ss where "s = ps @ t @ ss" by blast
      then have "c # s = (c # ps) @ t @ ss" by simp
      then show ?L by blast
    qed
  qed
  with Cons show ?case by (simp add: starts_with_append)
qed

lemma occurs_in_append: "occurs_in t s \<longleftrightarrow> (\<exists>ps ss. s = ps @ t @ ss)"
proof
  assume "occurs_in t s"
  then obtain i where i: "take (length t) (drop i s) = t"
    by (auto simp: occurs_in_def list_ex_iff)
  have "drop i s = take (length t) (drop i s) @ drop (length t) (drop i s)"
    by (simp only: append_take_drop_id)
  with i have "drop i s = t @ drop (length t) (drop i s)" by simp
  moreover have "s = take i s @ drop i s" by (simp only: append_take_drop_id)
  ultimately have "s = take i s @ t @ drop (length t) (drop i s)" by simp
  then show "\<exists>ps ss. s = ps @ t @ ss" by blast
next
  assume "\<exists>ps ss. s = ps @ t @ ss"
  then obtain ps ss where s: "s = ps @ t @ ss" by blast
  then have "take (length t) (drop (length ps) s) = t" by simp
  moreover from s have "length ps \<in> set [0..<Suc (length s)]" by simp
  ultimately show "occurs_in t s"
    unfolding occurs_in_def list_ex_iff by blast
qed

lemma contains_occurs_in: "contains t s \<longleftrightarrow> occurs_in t s"
  by (simp add: contains_append occurs_in_append)

lemma resolve_sniff_spec: "resolve df = sniff_spec df"
  unfolding resolve_def sniff_spec_def detect_find Let_def select_number_def
    select_number_comprehension first_two
  by (auto simp: lat_tokens_def lon_tokens_def lower_lowercased contains_occurs_in
      split: option.splits)

text \<open>
  C7. The loop that looks for the two columns and the fallback after it compute what the
  specification describes (\<open>sniff_spec\<close>, stated with \<open>lowercased\<close> and \<open>occurs_in\<close>): the
  first column, in the order of the file, whose lowercased name contains a latitude token
  and the first whose lowercased name contains a longitude token; when either is missing,
  the first two numeric columns in the order of the file, if there are two. When there
  are not, the loader returns the empty frame with \<open>valid_count = 0\<close> and
  \<open>invalid_count\<close> the number of rows of the file; otherwise it goes on with the two
  columns found.
\<close>

theorem sniffer_resolution:
  "resolve df = sniff_spec df
   \<and> (read_csv path = Inr df \<and> sniff_spec df = None \<longrightarrow>
        parse_csv rd read_csv path =
          Inr \<lparr>valid_df = DataFrame, valid_count = 0, invalid_count = len df,
               res_postal_col = None, res_name_col = None, res_lat_col = None,
               res_lon_col = None\<rparr>)
   \<and> (read_csv path = Inr df \<and> sniff_spec df = Some (lat, lon) \<longrightarrow>
        (\<exists>res. parse_csv rd read_csv path = Inr res
           \<and> res_lat_col res = Some lat \<and> res_lon_col res = Some lon))"
  by (simp add: resolve_sniff_spec[symmetric] parse_csv_def clean_None clean_Some)

theorem sniffer_resolution_witness:
  "sniff_spec ex_csv = Some (''lat'', ''lng'')
   \<and> sniff_spec ex_mixed = Some (''Site_LATITUDE_deg'', ''East_Long'')
   \<and> sniff_spec ex_upper = Some (''LAT'', ''LNG'')
   \<and> sniff_spec ex_unnamed = Some (''y'', ''x'')
   \<and> map_sum id (\<lambda>res. (res_lat_col res, res_lon_col res))
        (parse_csv read_decimal (\<lambda>p. Inr ex_mixed) ''a.csv'')
       = Inr (Some ''Site_LATITUDE_deg'', Some ''East_Long'')
   \<and> map_sum id res_lat_col (parse_csv read_decimal (\<lambda>p. Inr ex_unnamed) ''a.csv'') = Inr (Some ''y'')
   \<and> parse_csv read_decimal (\<lambda>p. Inr ex_unusable) ''a.csv'' =
          Inr \<lparr>valid_df = DataFrame, valid_count = 0, invalid_count = 2,
               res_postal_col = None, res_name_col = None, res_lat_col = None,
               res_lon_col = None\<rparr>"
proof -
  have a: "resolve ex_csv = Some (''lat'', ''lng'')" by code_simp
  have m: "resolve ex_mixed = Some (''Site_LATITUDE_deg'', ''East_Long'')" by code_simp
  have u: "resolve ex_upper = Some (''LAT'', ''LNG'')" by code_simp
  have b: "resolve ex_unnamed = Some (''y'', ''x'')" by code_simp
  have c: "resolve ex_unusable = None" by code_simp
  have l: "len ex_unusable = 2" by (simp add: len_def ex_unusable_def)
  note t1 = sniffer_resolution[of ex_csv "\<lambda>p. Inr ex_csv" "''a.csv''" read_decimal "''lat''" "''lng''"]
  note t2 = sniffer_resolution[of ex_unnamed "\<lambda>p. Inr ex_unnamed" "''a.csv''" read_decimal "''y''" "''x''"]
  note t3 = sniffer_resolution[of ex_unusable "\<lambda>p. Inr ex_unusable" "''a.csv''" read_decimal]
  note t4 = sniffer_resolution[of ex_mixed "\<lambda>p. Inr ex_mixed" "''a.csv''" read_decimal
      "''Site_LATITUDE_deg''" "''East_Long''"]
  note t5 = sniffer_resolution[of ex_upper "\<lambda>p. Inr ex_upper" "''a.csv''" read_decimal
      "''LAT''" "''LNG''"]
  from t1 a have 1: "sniff_spec ex_csv = Some (''lat'', ''lng'')" by simp
  from t2 b have 2: "sniff_spec ex_unnamed = Some (''y'', ''x'')" by simp
  from t2 2 have 3: "map_sum id res_lat_col (parse_csv read_decimal (\<lambda>p. Inr ex_unnamed) ''a.csv'') = Inr (Some ''y'')"
    by auto
  from t3 c have "sniff_spec ex_unusable = None" by simp
  with t3 l have 4: "parse_csv read_decimal (\<lambda>p. Inr ex_unusable) ''a.csv'' =
          Inr \<lparr>valid_df = DataFrame, valid_count = 0, invalid_count = 2,
               res_postal_col = None, res_name_col = None, res_lat_col = None,
               res_lon_col = None\<rparr>" by simp
  from t4 m have 5: "sniff_spec ex_mixed = Some (''Site_LATITUDE_deg'', ''East_Long'')" by simp
  from t4 5 have 6: "map_sum id (\<lambda>res. (res_lat_col res, res_lon_col res))
        (parse_csv read_decimal (\<lambda>p. Inr ex_mixed) ''a.csv'')
       = Inr (Some ''Site_LATITUDE_deg'', Some ''East_Long'')"
    by auto
  from t5 u have 7: "sniff_spec ex_upper = Some (''LAT'', ''LNG'')" by simp
  from 1 2 3 4 5 6 7 show ?thesis by blast
qed

lemma validate_coordinates_row_mask:
  "validate_coordinates rd (PyFloat x) (PyFloat y) = Inr True \<longleftrightarrow> row_mask (x, y)"
  by (cases x; cases y)
     (simp_all add: validate_coordinates_def validate_coordinates_try_def py_float_def
        row_mask_def between_def notna_def)

lemma coord_mask_fresh:
  assumes wf: "wf_frame df" and res: "resolve df = Some (lat, lon)"
    and fresh: "''__lat'' \<notin> set (labels df)"
  shows "coord_mask rd df lat lon =
     map (\<lambda>r. row_mask (to_numeric_cell rd (cell_at r lat), to_numeric_cell rd (cell_at r lon)))
       (rows df)"
proof -
  have lon: "lon \<noteq> ''__lat''"
    using resolve_in_labels(2)[OF res] fresh by auto
  have "cell_at (put ''__lat'' (Num x) r) lon = cell_at r lon" if "r \<in> set (rows df)" for r x
  proof -
    from wf that have "map fst r = labels df"
      by (auto simp: wf_frame_def list_all_iff)
    with fresh show ?thesis
      by (simp add: put_fresh cell_at_append_other[OF lon])
  qed
  then show ?thesis
    unfolding coord_mask_rows by simp
qed

text \<open>
  C6. For a file that is read and whose latitude and longitude columns resolve, the
  loader returns, \<open>valid_count\<close> is the number of rows of the frame returned, and
  \<open>invalid_count\<close> is the number of rows of the file minus \<open>valid_count\<close>. These rows are
  the survivors of coercion and validation: when the file has no column named \<^verbatim>\<open>__lat\<close>,
  \<open>valid_count\<close> is the number of rows of the file whose two values, read as numbers, pass
  \<^verbatim>\<open>validate_coordinates\<close>. On the file with the columns \<^verbatim>\<open>lat\<close>, \<^verbatim>\<open>lng\<close>, \<^verbatim>\<open>name\<close> and the
  rows \<^verbatim>\<open>(10,20,"A")\<close>, \<^verbatim>\<open>(91,20,"B")\<close>, \<^verbatim>\<open>("x","y","C")\<close>, the columns resolve to \<^verbatim>\<open>lat\<close>
  and \<^verbatim>\<open>lng\<close>, exactly the record A survives, \<open>valid_count = 1\<close> and \<open>invalid_count = 2\<close>.
\<close>

theorem loader_counts:
  "(read_csv path = Inr df \<and> resolve df \<noteq> None \<longrightarrow>
      (\<exists>res. parse_csv rd read_csv path = Inr res
         \<and> valid_count res = len (valid_df res)
         \<and> invalid_count res = len df - valid_count res))
   \<and> (read_csv path = Inr df \<and> wf_frame df \<and> resolve df = Some (lat, lon)
        \<and> ''__lat'' \<notin> set (labels df) \<longrightarrow>
      (\<exists>res. parse_csv rd read_csv path = Inr res
         \<and> valid_count res =
             int (length (filter
               (\<lambda>r. validate_coordinates rd' (PyFloat (to_numeric_cell rd (cell_at r lat)))
                      (PyFloat (to_numeric_cell rd (cell_at r lon))) = Inr True)
               (rows df)))))
   \<and> resolve ex_csv = Some (''lat'', ''lng'')
   \<and> valid_df (clean read_decimal ex_csv) =
        \<lparr>columns = [(''lat'', Object), (''lng'', Object), (''name'', Object),
                    (''latitude'', Number), (''longitude'', Number)],
         rows = [[(''lat'', Str ''10''), (''lng'', Str ''20''), (''name'', Str ''A''),
                  (''latitude'', Num (Fin 10)), (''longitude'', Num (Fin 20))]]\<rparr>
   \<and> valid_count (clean read_decimal ex_csv) = 1
   \<and> invalid_count (clean read_decimal ex_csv) = 2"
proof -
  have "valid_count (clean rd df) = len (valid_df (clean rd df))
        \<and> invalid_count (clean rd df) = len df - valid_count (clean rd df)"
    if "resolve df = Some (lat, lon)" for lat lon
    using that by (simp add: clean_Some len_def length_rows_valid_frame)
  then have g: "read_csv path = Inr df \<and> resolve df \<noteq> None \<longrightarrow>
      (\<exists>res. parse_csv rd read_csv path = Inr res
         \<and> valid_count res = len (valid_df res)
         \<and> invalid_count res = len df - valid_count res)"
    by (auto simp: parse_csv_def)
  have h: "read_csv path = Inr df \<and> wf_frame df \<and> resolve df = Some (lat, lon)
        \<and> ''__lat'' \<notin> set (labels df) \<longrightarrow>
      (\<exists>res. parse_csv rd read_csv path = Inr res
         \<and> valid_count res =
             int (length (filter
               (\<lambda>r. validate_coordinates rd' (PyFloat (to_numeric_cell rd (cell_at r lat)))
                      (PyFloat (to_numeric_cell rd (cell_at r lon))) = Inr True)
               (rows df))))"
    by (simp add: parse_csv_def clean_Some(2) coord_mask_fresh filter_map comp_def
        validate_coordinates_row_mask)
  have e1: "resolve ex_csv = Some (''lat'', ''lng'')" by code_simp
  have e2: "valid_df (clean read_decimal ex_csv) =
        \<lparr>columns = [(''lat'', Object), (''lng'', Object), (''name'', Object),
                    (''latitude'', Number), (''longitude'', Number)],
         rows = [[(''lat'', Str ''10''), (''lng'', Str ''20''), (''name'', Str ''A''),
                  (''latitude'', Num (Fin 10)), (''longitude'', Num (Fin 20))]]\<rparr>"
    by code_simp
  have e3: "valid_count (clean read_decimal ex_csv) = 1" by code_simp
  have e4: "invalid_count (clean read_decimal ex_csv) = 2" by code_simp
  from g h e1 e2 e3 e4 show ?thesis by blast
qed

theorem loader_counts_witness:
  "map_sum id (\<lambda>res. (valid_count res, len (valid_df res), invalid_count res))
     (parse_csv read_decimal (\<lambda>p. Inr ex_csv) ''a.csv'') = Inr (1, 1, 2)
   \<and> length (filter
        (\<lambda>r. validate_coordinates read_decimal
                (PyFloat (to_numeric_cell read_decimal (cell_at r ''lat'')))
                (PyFloat (to_numeric_cell read_decimal (cell_at r ''lng''))) = Inr True)
        (rows ex_csv)) = 1"
proof -
  have r: "resolve ex_csv = Some (''lat'', ''lng'')" by code_simp
  have w: "wf_frame ex_csv" by code_simp
  have f: "''__lat'' \<notin> set (labels ex_csv)" by code_simp
  have v: "valid_count (clean read_decimal ex_csv) = 1" by code_simp
  have l: "len ex_csv = 3" by (simp add: len_def ex_csv_def)
  note t = loader_counts[of "\<lambda>p. Inr ex_csv" "''a.csv''" ex_csv read_decimal "''lat''" "''lng''"
      read_decimal]
  from t r obtain res where "parse_csv read_decimal (\<lambda>p. Inr ex_csv) ''a.csv'' = Inr res"
    "valid_count res = len (valid_df res)" "invalid_count res = len ex_csv - valid_count res"
    by auto
  moreover from this(1) have "res = clean read_decimal ex_csv" by (simp add: parse_csv_def)
  ultimately have 1: "map_sum id (\<lambda>res. (valid_count res, len (valid_df res), invalid_count res))
     (parse_csv read_decimal (\<lambda>p. Inr ex_csv) ''a.csv'') = Inr (1, 1, 2)"
    using v l by simp
  from t r w f have "valid_count (clean read_decimal ex_csv) =
      int (length (filter
        (\<lambda>r. validate_coordinates read_decimal
                (PyFloat (to_numeric_cell read_decimal (cell_at r ''lat'')))
                (PyFloat (to_numeric_cell read_decimal (cell_at r ''lng''))) = Inr True)
        (rows ex_csv)))"
    by (auto simp: parse_csv_def)
  with v have 2: "length (filter
        (\<lambda>r. validate_coordinates read_decimal
                (PyFloat (to_numeric_cell read_decimal (cell_at r ''lat'')))
                (PyFloat (to_numeric_cell read_decimal (cell_at r ''lng''))) = Inr True)
        (rows ex_csv)) = 1"
    by simp
  from 1 2 show ?thesis by simp
qed

text \<open>
  C3, as the specification states it, fails: the loader does not rename the resolved
  columns. On the example file they resolve to \<^verbatim>\<open>lat\<close> and \<^verbatim>\<open>lng\<close>, and both labels are
  still labels of the frame returned, next to the two canonical ones.
\<close>

theorem loader_keeps_resolved_names:
  "resolve ex_csv = Some (''lat'', ''lng'')
   \<and> labels (valid_df (clean read_decimal ex_csv)) =
        [''lat'', ''lng'', ''name'', ''latitude'', ''longitude'']
   \<and> ''lat'' \<in> set (labels (valid_df (clean read_decimal ex_csv)))
   \<and> ''lng'' \<in> set (labels (valid_df (clean read_decimal ex_csv)))"
proof -
  have 1: "resolve ex_csv = Some (''lat'', ''lng'')" by code_simp
  have 2: "labels (valid_df (clean read_decimal ex_csv)) =
        [''lat'', ''lng'', ''name'', ''latitude'', ''longitude'']" by code_simp
  from 1 2 show ?thesis by simp
qed

text \<open>
  C3, amended. For a file that is read, whose latitude and longitude columns resolve and
  which has no column named \<^verbatim>\<open>__lat\<close> or \<^verbatim>\<open>__lon\<close>, the loader returns a frame that keeps
  every column of the file, the resolved ones included, under its own name and with its
  values unchanged on each surviving row, and that has two more columns after them,
  \<^verbatim>\<open>latitude\<close> and \<^verbatim>\<open>longitude\<close>, holding the numbers read from the resolved columns. The
  surviving rows are the rows of the file whose two numbers pass the mask, in the order
  of the file.
\<close>

theorem loader_appends_canonical:
  assumes "read_csv path = Inr df" and "wf_frame df" and "resolve df = Some (lat, lon)"
    and "''__lat'' \<notin> set (labels df)" and "''__lon'' \<notin> set (labels df)"
  shows "\<exists>res. parse_csv rd read_csv path = Inr res
           \<and> columns (valid_df res) =
               columns df @ [(''latitude'', Number), (''longitude'', Number)]
           \<and> rows (valid_df res) =
               map (\<lambda>r. r @ [(''latitude'', Num (to_numeric_cell rd (cell_at r lat))),
                              (''longitude'', Num (to_numeric_cell rd (cell_at r lon)))])
                 (filter (\<lambda>r. row_mask (to_numeric_cell rd (cell_at r lat),
                                          to_numeric_cell rd (cell_at r lon)))
                    (rows df))"
  using assms
  by (simp add: parse_csv_def clean_Some(1) columns_valid_frame_fresh rows_valid_frame_fresh)

theorem loader_appends_canonical_witness:
  "map_sum id (\<lambda>res. (columns (valid_df res), rows (valid_df res)))
     (parse_csv read_decimal (\<lambda>p. Inr ex_csv) ''a.csv'') =
   Inr ([(''lat'', Object), (''lng'', Object), (''name'', Object),
         (''latitude'', Number), (''longitude'', Number)],
        [[(''lat'', Str ''10''), (''lng'', Str ''20''), (''name'', Str ''A''),
          (''latitude'', Num (Fin 10)), (''longitude'', Num (Fin 20))]])"
proof -
  have w: "wf_frame ex_csv" by code_simp
  have r: "resolve ex_csv = Some (''lat'', ''lng'')" by code_simp
  have f: "''__lat'' \<notin> set (labels ex_csv)" "''__lon'' \<notin> set (labels ex_csv)" by code_simp+
  have c: "columns ex_csv @ [(''latitude'', Number), (''longitude'', Number)] =
      [(''lat'', Object), (''lng'', Object), (''name'', Object),
         (''latitude'', Number), (''longitude'', Number)]" by (simp add: ex_csv_def)
  have m: "map (\<lambda>r. r @ [(''latitude'', Num (to_numeric_cell read_decimal (cell_at r ''lat''))),
                              (''longitude'', Num (to_numeric_cell read_decimal (cell_at r ''lng'')))])
                 (filter (\<lambda>r. row_mask (to_numeric_cell read_decimal (cell_at r ''lat''),
                                          to_numeric_cell read_decimal (cell_at r ''lng'')))
                    (rows ex_csv)) =
       [[(''lat'', Str ''10''), (''lng'', Str ''20''), (''name'', Str ''A''),
          (''latitude'', Num (Fin 10)), (''longitude'', Num (Fin 20))]]" by code_simp
  have rd: "(\<lambda>p. Inr ex_csv) ''a.csv'' = (Inr ex_csv :: py_error + dataframe)" by simp
  from loader_appends_canonical[where read_csv = "\<lambda>p. Inr ex_csv" and rd = read_decimal
      and path = "''a.csv''", OF rd w r f]
  obtain res where "parse_csv read_decimal (\<lambda>p. Inr ex_csv) ''a.csv'' = Inr res"
    and "columns (valid_df res) =
      [(''lat'', Object), (''lng'', Object), (''name'', Object),
         (''latitude'', Number), (''longitude'', Number)]"
    and "rows (valid_df res) =
       [[(''lat'', Str ''10''), (''lng'', Str ''20''), (''name'', Str ''A''),
          (''latitude'', Num (Fin 10)), (''longitude'', Num (Fin 20))]]"
    unfolding c m by blast
  then show ?thesis by simp
qed

section \<open>The claims about popups, layers and the map\<close>

lemma and_then_simps:
  "and_then (Inl e) f = Inl e" "and_then (Inr x) f = f x"
  by (simp_all add: and_then_def)

lemma clean_one_point_origin: "clean rd (one_point 0 0) =
    \<lparr>valid_df = loaded_point 0 0, valid_count = 1, invalid_count = 0,
     res_postal_col = None, res_name_col = None, res_lat_col = Some ''Latitude'',
     res_lon_col = Some ''Longitude''\<rparr>"
  by code_simp

lemma clean_one_point_ten: "clean rd (one_point 10 10) =
    \<lparr>valid_df = loaded_point 10 10, valid_count = 1, invalid_count = 0,
     res_postal_col = None, res_name_col = None, res_lat_col = Some ''Latitude'',
     res_lon_col = Some ''Longitude''\<rparr>"
  by code_simp

lemma clean_ex_csv: "clean read_decimal ex_csv =
    \<lparr>valid_df = ex_loaded, valid_count = 1, invalid_count = 2,
     res_postal_col = None, res_name_col = Some ''name'', res_lat_col = Some ''lat'',
     res_lon_col = Some ''lng''\<rparr>"
  by code_simp

lemma not_empty_loaded_point: "\<not> empty_frame (loaded_point a b)"
  by (simp add: empty_frame_def loaded_point_def)

lemma not_empty_ex_loaded: "\<not> empty_frame ex_loaded"
  by (simp add: empty_frame_def ex_loaded_def)

lemma select_loaded_point:
  "select [''latitude'', ''longitude''] (loaded_point a b) =
     Inr \<lparr>columns = [(''latitude'', Number), (''longitude'', Number)],
          rows = [[(''latitude'', Num (Fin a)), (''longitude'', Num (Fin b))]]\<rparr>"
  by (simp add: select_def labels_def loaded_point_def)

lemma col_mean_single:
  "col_mean \<lparr>columns = [(''latitude'', Number), (''longitude'', Number)],
             rows = [[(''latitude'', Num (Fin a)), (''longitude'', Num (Fin b))]]\<rparr> ''latitude''
     = Inr (Scalar (Fin a))"
  "col_mean \<lparr>columns = [(''latitude'', Number), (''longitude'', Number)],
             rows = [[(''latitude'', Num (Fin a)), (''longitude'', Num (Fin b))]]\<rparr> ''longitude''
     = Inr (Scalar (Fin b))"
  by (simp_all add: col_mean_def labels_def getcol_def cell_at_def series_mean_def mean_def
        notna_def and_then_simps)

lemma make_markers_loaded_point:
  "make_markers L color None None (rows (loaded_point a b)) =
     Inr [\<lparr>marker_location = (Fin a, Fin b),
           tooltip = ''Latitude: '' @ format6 L (Fin a) @ '', Longitude: '' @ format6 L (Fin b),
           popup = ''<div class='' @ [CHR 0x27] @ ''cluster-popup'' @ [CHR 0x27] @ ''>''
             @ popup_title
             @ ''<b>Latitude:</b> '' @ format6 L (Fin a) @ ''<br>''
             @ ''<b>Longitude:</b> '' @ format6 L (Fin b) @ ''<br>'' @ ''</div>'',
           icon_color = color\<rparr>]"
  by (simp add: loaded_point_def make_marker_def tooltip_html_def popup_html_def
      optional_line_def getitem_def get_def and_then_simps coordinate_def)

text \<open>
  C9. When both frames are empty, \<^verbatim>\<open>build_map\<close> returns the default world view, centred
  at \<open>(20, 0)\<close> with zoom 2 and without layers: it returns (it does not raise), and the
  value is the same for all such calls, whatever the other arguments are.
\<close>

theorem build_map_empty:
  assumes "empty_frame url_df" and "empty_frame store_df"
  shows "build_map L url_df store_df cluster fast_csv postal1 postal2 name1 name2 =
           Inr \<lparr>map_location = (Fin 20, Fin 0), zoom_start = 2, map_children = []\<rparr>"
  using assms by (simp add: build_map_def)

theorem build_map_empty_witness:
  "build_map ex_lib DataFrame (loc [False, False, False] ex_csv) True False None None None None =
     Inr \<lparr>map_location = (Fin 20, Fin 0), zoom_start = 2, map_children = []\<rparr>"
proof -
  have 1: "empty_frame DataFrame" by (simp add: empty_frame_def DataFrame_def)
  have 2: "empty_frame (loc [False, False, False] ex_csv)"
    by (simp add: empty_frame_def loc_def ex_csv_def)
  show ?thesis by (rule build_map_empty[OF 1 2])
qed

text \<open>
  When the first frame is not empty, the frames averaged for the centre of the map do not
  depend on the second frame.
\<close>

lemma base_frames_url_only:
  "\<not> empty_frame url_df \<Longrightarrow> base_frames url_df store_df = base_frames url_df DataFrame"
  by (simp add: base_frames_def)

text \<open>
  C1 does not hold of the code. The two files of one row each, a record at \<open>(0, 0)\<close> and a
  record at \<open>(10, 10)\<close>, are loaded, and the map is composed with the default settings:
  the centre is \<open>(0, 0)\<close>, the mean of the first layer alone, where the mean over the
  records of both layers is \<open>(5, 5)\<close>.
\<close>

theorem build_map_centre_first_layer_only:
  "valid_df (clean (numeric_str L) (one_point 0 0)) = loaded_point 0 0
   \<and> valid_df (clean (numeric_str L) (one_point 10 10)) = loaded_point 10 10
   \<and> map_sum id map_location
        (build_map L (loaded_point 0 0) (loaded_point 10 10) True False None None None None)
       = Inr (Fin 0, Fin 0)
   \<and> centroid_spec (loaded_point 0 0) (loaded_point 10 10) = (Fin 5, Fin 5)"
proof -
  have b: "base_frames (loaded_point 0 0) (loaded_point 10 10) =
      Inr [\<lparr>columns = [(''latitude'', Number), (''longitude'', Number)],
            rows = [[(''latitude'', Num (Fin 0)), (''longitude'', Num (Fin 0))]]\<rparr>]"
    by (simp add: base_frames_def not_empty_loaded_point select_loaded_point and_then_simps)
  have 1: "map_sum id map_location
        (build_map L (loaded_point 0 0) (loaded_point 10 10) True False None None None None)
       = Inr (Fin 0, Fin 0)"
    by (simp add: build_map_def not_empty_loaded_point b col_mean_single and_then_simps
        concat_frames_def Map_def add_layer_def make_markers_loaded_point)
  have 2: "centroid_spec (loaded_point 0 0) (loaded_point 10 10) = (Fin 5, Fin 5)"
    by (simp add: centroid_spec_def not_empty_loaded_point)
       (simp add: loaded_point_def record_coordinate_def mean_def notna_def)
  from 1 2 show ?thesis by (simp add: clean_one_point_origin clean_one_point_ten)
qed

lemma getitem_missing: "k \<notin> set (map fst row) \<Longrightarrow> getitem row k = Inl (KeyError k)"
proof -
  assume "k \<notin> set (map fst row)"
  then have "filter (\<lambda>(l, c). l = k) row = []"
    by (induction row) auto
  then show ?thesis by (simp add: getitem_def)
qed

text \<open>A row without a column labelled \<^verbatim>\<open>Latitude\<close> has no popup: \<^verbatim>\<open>popup_html\<close> raises.\<close>

lemma popup_html_needs_Latitude:
  assumes "''Latitude'' \<notin> set (map fst row)"
  shows "\<exists>e. popup_html L row postal_col name_col = Inl e"
proof (cases "optional_line L row name_col ''<b>Name:</b> '' ''<br>''")
  case (Inl e)
  then show ?thesis by (simp add: popup_html_def and_then_simps)
next
  case (Inr nm)
  then show ?thesis
    by (simp add: popup_html_def and_then_simps getitem_missing[OF assms])
qed

lemma popup_html_ex_record:
  "popup_html L ex_record None (Some ''name'') = Inl (KeyError ''Latitude'')"
  by (simp add: popup_html_def optional_line_def getitem_def and_then_simps ex_record_def)

lemma tooltip_html_ex_record:
  "tooltip_html L ex_record None (Some ''name'') =
     Inr (''<b>'' @ str_value L (Str ''A'') @ ''</b><br>'' @ ''Latitude: '' @ format6 L (Fin 10)
          @ '', Longitude: '' @ format6 L (Fin 20))"
  by (simp add: tooltip_html_def optional_line_def getitem_def get_def and_then_simps
      ex_record_def)

text \<open>
  C2 does not hold of the code. The loader returns one record for the example file, with
  the canonical fields \<^verbatim>\<open>latitude\<close> and \<^verbatim>\<open>longitude\<close>; \<^verbatim>\<open>popup_html\<close> on this record, with
  the postal and name columns the loader found, raises \<^verbatim>\<open>KeyError\<close> for the label
  \<^verbatim>\<open>Latitude\<close>, while \<^verbatim>\<open>tooltip_html\<close>, which reads \<^verbatim>\<open>latitude\<close>, returns its text.
\<close>

theorem popup_html_key_error:
  "rows (valid_df (clean read_decimal ex_csv)) = [ex_record]
   \<and> popup_html L ex_record (res_postal_col (clean read_decimal ex_csv))
        (res_name_col (clean read_decimal ex_csv)) = Inl (KeyError ''Latitude'')
   \<and> tooltip_html L ex_record (res_postal_col (clean read_decimal ex_csv))
        (res_name_col (clean read_decimal ex_csv)) =
       Inr (''<b>'' @ str_value L (Str ''A'') @ ''</b><br>'' @ ''Latitude: ''
            @ format6 L (Fin 10) @ '', Longitude: '' @ format6 L (Fin 20))"
  by (simp add: clean_ex_csv ex_loaded_def popup_html_ex_record tooltip_html_ex_record)

text \<open>
  Outside the fast path, \<^verbatim>\<open>add_layer\<close> on a frame that is not empty returns the layer
  with one cluster of markers and the fixed options whenever every marker can be built,
  and raises what the first failing marker raises otherwise; the value of \<open>cluster\<close> plays
  no part when \<open>fast\<close> is off.
\<close>

lemma add_layer_detailed:
  assumes "\<not> empty_frame df" and "\<not> (cluster \<and> fast)"
  shows "add_layer L df color name cluster fast postal_col name_col =
     and_then (make_markers L color postal_col name_col (rows df)) (\<lambda>ms.
       Inr \<lparr>group_name = name,
            children = [MarkerCluster (name @ '' Clusters'') fixed_options ms]\<rparr>)"
  using assms by (auto simp: add_layer_def)

text \<open>
  C10 does not hold of the code. The frame the loader returns for the example file is not
  empty; with \<open>fast\<close> off, \<^verbatim>\<open>add_layer\<close> on it raises \<^verbatim>\<open>KeyError\<close> for the label
  \<^verbatim>\<open>Latitude\<close>, whatever \<open>cluster\<close> is, instead of returning a layer with a cluster of
  markers.
\<close>

theorem add_layer_detailed_key_error:
  "valid_df (clean read_decimal ex_csv) = ex_loaded
   \<and> \<not> empty_frame ex_loaded
   \<and> add_layer L ex_loaded color name cluster False
        (res_postal_col (clean read_decimal ex_csv)) (res_name_col (clean read_decimal ex_csv))
      = Inl (KeyError ''Latitude'')"
proof -
  have g: "getitem ex_record ''latitude'' = Inr (One (Num (Fin 10)))"
    "getitem ex_record ''longitude'' = Inr (One (Num (Fin 20)))"
    by (simp_all add: getitem_def ex_record_def)
  have "make_marker L color None (Some ''name'') ex_record = Inl (KeyError ''Latitude'')"
    by (simp add: make_marker_def g tooltip_html_ex_record popup_html_ex_record and_then_simps)
  then have "make_markers L color None (Some ''name'') (rows ex_loaded) = Inl (KeyError ''Latitude'')"
    by (simp add: ex_loaded_def)
  then have "add_layer L ex_loaded color name cluster False None (Some ''name'')
      = Inl (KeyError ''Latitude'')"
    by (simp add: add_layer_detailed[OF not_empty_ex_loaded] and_then_simps)
  then show ?thesis
    by (simp add: clean_ex_csv not_empty_ex_loaded)
qed

section \<open>The claims about the dashboard\<close>

lemma paths_not_empty: "PATH_URL_CSV \<noteq> []" "PATH_STORE_CSV \<noteq> []"
  by (simp_all add: PATH_URL_CSV_def PATH_STORE_CSV_def)

lemma load_missing:
  "\<not> path_exists fs p \<Longrightarrow> load L fs p what = Inr (initial, [what @ '' file not found at: '' @ p])"
  by (simp add: load_def)

lemma load_unparseable:
  "p \<noteq> [] \<Longrightarrow> path_exists fs p \<Longrightarrow> pd_read_csv fs p = Inl e \<Longrightarrow> load L fs p what = Inl e"
  by (simp add: load_def parse_csv_def and_then_simps)

lemma load_parsed:
  "p \<noteq> [] \<Longrightarrow> path_exists fs p \<Longrightarrow> pd_read_csv fs p = Inr df
     \<Longrightarrow> load L fs p what = Inr (clean (numeric_str L) df, [])"
  by (simp add: load_def parse_csv_def and_then_simps)

lemma load_Inr_exists:
  assumes "load L fs p what = Inr (r, w)" and "path_exists fs p" and "p \<noteq> []"
  shows "parse_csv (numeric_str L) (pd_read_csv fs) p = Inr r"
  using assms by (cases "parse_csv (numeric_str L) (pd_read_csv fs) p")
    (simp_all add: load_def and_then_simps)

lemma main_Inr_previews:
  assumes "main L fs cluster fast_csv = Inr d"
  shows "\<exists>u w1 s w2. load L fs PATH_URL_CSV ''URL Data'' = Inr (u, w1)
           \<and> load L fs PATH_STORE_CSV ''Store Data'' = Inr (s, w2)
           \<and> url_preview d = preview_of u \<and> store_preview d = preview_of s"
proof (cases "load L fs PATH_URL_CSV ''URL Data''")
  case (Inl e)
  with assms show ?thesis by (simp add: main_def and_then_simps)
next
  case u: (Inr uw)
  obtain u w1 where uw: "uw = (u, w1)" by (cases uw)
  show ?thesis
  proof (cases "load L fs PATH_STORE_CSV ''Store Data''")
    case (Inl e)
    with assms u uw show ?thesis by (simp add: main_def and_then_simps)
  next
    case s: (Inr sw)
    obtain s w2 where sw: "sw = (s, w2)" by (cases sw)
    from assms u uw s sw show ?thesis
      by (auto simp: main_def and_then_def Let_def split: sum.splits)
  qed
qed

text \<open>
  C4, as the specification states it, fails. The first file exists and cannot be parsed,
  the second is a good file: \<^verbatim>\<open>main\<close> ends with the exception of the reader, and no
  dashboard is returned.
\<close>

theorem main_unparseable_aborts:
  "main ex_lib (ex_disk [(PATH_URL_CSV, Inl ReadError), (PATH_STORE_CSV, Inr (one_point 10 10))])
     True False = Inl ReadError"
  by (simp add: main_def load_def parse_csv_def ex_disk_def and_then_simps paths_not_empty)

text \<open>
  C4, amended. When a file exists and cannot be parsed, the exception of the reader
  leaves \<^verbatim>\<open>parse_csv\<close> and \<^verbatim>\<open>main\<close>: the run of the dashboard ends with it (for the first
  file always, for the second file when the first one is missing or was read), and
  nothing is substituted. Only a missing file is replaced by the empty frame with both
  counters 0, with a warning that names the path.
\<close>

theorem main_propagates_read_error:
  "(path_exists fs PATH_URL_CSV \<and> pd_read_csv fs PATH_URL_CSV = Inl e
      \<longrightarrow> main L fs cluster fast_csv = Inl e)
   \<and> ((\<not> path_exists fs PATH_URL_CSV \<or> (\<exists>df. pd_read_csv fs PATH_URL_CSV = Inr df))
        \<and> path_exists fs PATH_STORE_CSV \<and> pd_read_csv fs PATH_STORE_CSV = Inl e
      \<longrightarrow> main L fs cluster fast_csv = Inl e)
   \<and> (\<not> path_exists fs p
      \<longrightarrow> load L fs p what = Inr (initial, [what @ '' file not found at: '' @ p])
          \<and> valid_df initial = DataFrame \<and> empty_frame (valid_df initial)
          \<and> valid_count initial = 0 \<and> invalid_count initial = 0)"
proof (intro conjI impI)
  assume "path_exists fs PATH_URL_CSV \<and> pd_read_csv fs PATH_URL_CSV = Inl e"
  then have "load L fs PATH_URL_CSV ''URL Data'' = Inl e"
    by (simp add: load_unparseable paths_not_empty)
  then show "main L fs cluster fast_csv = Inl e"
    by (simp add: main_def and_then_simps)
next
  assume a: "(\<not> path_exists fs PATH_URL_CSV \<or> (\<exists>df. pd_read_csv fs PATH_URL_CSV = Inr df))
        \<and> path_exists fs PATH_STORE_CSV \<and> pd_read_csv fs PATH_STORE_CSV = Inl e"
  then have "\<exists>u w. load L fs PATH_URL_CSV ''URL Data'' = Inr (u, w)"
    by (cases "path_exists fs PATH_URL_CSV") (auto simp: load_missing load_parsed paths_not_empty)
  then obtain u w where u: "load L fs PATH_URL_CSV ''URL Data'' = Inr (u, w)" by blast
  from a have s: "load L fs PATH_STORE_CSV ''Store Data'' = Inl e"
    by (simp add: load_unparseable paths_not_empty)
  show "main L fs cluster fast_csv = Inl e"
    by (simp add: main_def u s and_then_simps)
next
  assume "\<not> path_exists fs p"
  then show "load L fs p what = Inr (initial, [what @ '' file not found at: '' @ p])"
    by (rule load_missing)
qed (simp_all add: initial_def empty_frame_def DataFrame_def)

theorem main_propagates_read_error_witness:
  "main ex_lib (ex_disk [(PATH_URL_CSV, Inl TypeError)]) True False = Inl TypeError
   \<and> main ex_lib (ex_disk [(PATH_STORE_CSV, Inl ReadError)]) False True = Inl ReadError
   \<and> load ex_lib (ex_disk [(PATH_STORE_CSV, Inl ReadError)]) PATH_URL_CSV ''URL Data'' =
       Inr (initial, [''URL Data file not found at: Spoutro August 2025 1(in).csv''])"
proof -
  have 1: "path_exists (ex_disk [(PATH_URL_CSV, Inl TypeError)]) PATH_URL_CSV
      \<and> pd_read_csv (ex_disk [(PATH_URL_CSV, Inl TypeError)]) PATH_URL_CSV = Inl TypeError"
    by (simp add: ex_disk_def)
  have 2: "(\<not> path_exists (ex_disk [(PATH_STORE_CSV, Inl ReadError)]) PATH_URL_CSV
        \<or> (\<exists>df. pd_read_csv (ex_disk [(PATH_STORE_CSV, Inl ReadError)]) PATH_URL_CSV = Inr df))
      \<and> path_exists (ex_disk [(PATH_STORE_CSV, Inl ReadError)]) PATH_STORE_CSV
      \<and> pd_read_csv (ex_disk [(PATH_STORE_CSV, Inl ReadError)]) PATH_STORE_CSV = Inl ReadError"
    by (simp add: ex_disk_def PATH_URL_CSV_def PATH_STORE_CSV_def)
  have 3: "\<not> path_exists (ex_disk [(PATH_STORE_CSV, Inl ReadError)]) PATH_URL_CSV"
    by (simp add: ex_disk_def PATH_URL_CSV_def PATH_STORE_CSV_def)
  from main_propagates_read_error[of "ex_disk [(PATH_URL_CSV, Inl TypeError)]" TypeError
      ex_lib True False] 1
  have a: "main ex_lib (ex_disk [(PATH_URL_CSV, Inl TypeError)]) True False = Inl TypeError"
    by blast
  from main_propagates_read_error[of "ex_disk [(PATH_STORE_CSV, Inl ReadError)]" ReadError
      ex_lib False True PATH_URL_CSV "''URL Data''"] 2 3
  have b: "main ex_lib (ex_disk [(PATH_STORE_CSV, Inl ReadError)]) False True = Inl ReadError"
    and c: "load ex_lib (ex_disk [(PATH_STORE_CSV, Inl ReadError)]) PATH_URL_CSV ''URL Data'' =
       Inr (initial, [''URL Data'' @ '' file not found at: '' @ PATH_URL_CSV])"
    by blast+
  from a b c show ?thesis by (simp add: PATH_URL_CSV_def)
qed

lemma getitem_appended_pair:
  assumes "k1 \<notin> set (map fst r)" and "k2 \<notin> set (map fst r)" and "k1 \<noteq> k2"
  shows "getitem (r @ [(k1, v1), (k2, v2)]) k1 = Inr (One v1)"
    and "getitem (r @ [(k1, v1), (k2, v2)]) k2 = Inr (One v2)"
proof -
  have f: "filter (\<lambda>(l, c). l = k) r = []" if "k \<notin> set (map fst r)" for k
    using that by (induction r) auto
  show "getitem (r @ [(k1, v1), (k2, v2)]) k1 = Inr (One v1)"
    using assms(3) by (simp add: getitem_def f[OF assms(1)])
  show "getitem (r @ [(k1, v1), (k2, v2)]) k2 = Inr (One v2)"
    using assms(3) by (simp add: getitem_def f[OF assms(2)])
qed

lemma valid_row_unique_fields:
  assumes wf: "wf_frame df" and res: "resolve df = Some (lat, lon)"
    and fresh: "''__lat'' \<notin> set (labels df)" "''__lon'' \<notin> set (labels df)"
    and canon: "''latitude'' \<notin> set (labels df)" "''longitude'' \<notin> set (labels df)"
    and r': "r' \<in> set (rows (valid_frame rd df lat lon))"
  shows "\<exists>a b. getitem r' ''latitude'' = Inr (One (Num (Fin a)))
           \<and> getitem r' ''longitude'' = Inr (One (Num (Fin b)))
           \<and> - 90 \<le> a \<and> a \<le> 90 \<and> - 180 \<le> b \<and> b \<le> 180"
proof -
  from r' obtain r x y where r: "r \<in> set (rows df)"
    and eq: "r' = r @ [(''latitude'', Num x), (''longitude'', Num y)]"
    and m: "row_mask (x, y)"
    unfolding rows_valid_frame_fresh[OF wf res fresh] by auto
  from wf r have l: "map fst r = labels df"
    by (auto simp: wf_frame_def list_all_iff)
  from m obtain a b where ab: "x = Fin a" "y = Fin b" "- 90 \<le> a" "a \<le> 90" "- 180 \<le> b" "b \<le> 180"
    unfolding row_mask_Fin by blast
  have "getitem r' ''latitude'' = Inr (One (Num x))" "getitem r' ''longitude'' = Inr (One (Num y))"
    unfolding eq using canon by (simp_all add: getitem_appended_pair l)
  with ab show ?thesis by blast
qed

text \<open>
  For a file with no column named \<^verbatim>\<open>latitude\<close>, \<^verbatim>\<open>longitude\<close>, \<^verbatim>\<open>__lat\<close> or \<^verbatim>\<open>__lon\<close>, every
  record the loader returns has one value under \<^verbatim>\<open>latitude\<close> and one under \<^verbatim>\<open>longitude\<close>,
  numbers within range (\<open>valid_row_unique_fields\<close>); for every file, the two numbers the
  loader read are among the values under the two labels (\<open>valid_row_fields\<close>).
\<close>

lemma clean_ex_canonical:
  "clean read_decimal ex_canonical =
     \<lparr>valid_df =
        \<lparr>columns = [(''latitude'', Object), (''longitude'', Object),
                    (''latitude'', Number), (''longitude'', Number)],
         rows = [ex_canonical_record]\<rparr>,
      valid_count = 1, invalid_count = 1, res_postal_col = None, res_name_col = None,
      res_lat_col = Some ''latitude'', res_lon_col = Some ''longitude''\<rparr>"
  by code_simp

lemma clean_ex_third:
  "clean rd ex_third =
     \<lparr>valid_df =
        \<lparr>columns = [(''lat'', Number), (''lon'', Number), (''latitude'', Number),
                    (''latitude'', Number), (''longitude'', Number)],
         rows = [ex_third_record]\<rparr>,
      valid_count = 1, invalid_count = 0, res_postal_col = None, res_name_col = None,
      res_lat_col = Some ''lat'', res_lon_col = Some ''lon''\<rparr>"
  by code_simp

text \<open>
  C8 does not hold of the code. For a file that already has a column named \<^verbatim>\<open>latitude\<close>,
  \<^verbatim>\<open>rename\<close> gives the new column the label of the old one, and the record has two values
  under the label. For the file with the header \<^verbatim>\<open>latitude,longitude\<close> and the rows
  \<^verbatim>\<open>(10,20)\<close>, \<^verbatim>\<open>(x,y)\<close> the one record returned has the string \<^verbatim>\<open>10\<close> and the number 10
  under \<^verbatim>\<open>latitude\<close>: \<^verbatim>\<open>row["latitude"]\<close> is a series, not a number, and \<^verbatim>\<open>tooltip_html\<close>,
  which converts it with \<^verbatim>\<open>float\<close>, raises \<^verbatim>\<open>TypeError\<close>. For the file with the header
  \<^verbatim>\<open>lat,lon,latitude\<close> and the row \<^verbatim>\<open>(10,20,500)\<close> the record returned has the values 500
  and 10 under \<^verbatim>\<open>latitude\<close>, the first outside \<open>[-90, 90]\<close>.
\<close>

theorem loader_duplicate_latitude:
  "wf_frame ex_canonical
   \<and> rows (valid_df (clean read_decimal ex_canonical)) = [ex_canonical_record]
   \<and> getitem ex_canonical_record ''latitude'' = Inr (Many [Str ''10'', Num (Fin 10)])
   \<and> getitem ex_canonical_record ''longitude'' = Inr (Many [Str ''20'', Num (Fin 20)])
   \<and> tooltip_html L ex_canonical_record (res_postal_col (clean read_decimal ex_canonical))
        (res_name_col (clean read_decimal ex_canonical)) = Inl TypeError
   \<and> wf_frame ex_third
   \<and> rows (valid_df (clean (numeric_str L) ex_third)) = [ex_third_record]
   \<and> getitem ex_third_record ''latitude'' = Inr (Many [Num (Fin 500), Num (Fin 10)])
   \<and> (''latitude'', Num (Fin 500)) \<in> set ex_third_record"
proof -
  have 1: "wf_frame ex_canonical" by code_simp
  have 2: "wf_frame ex_third" by code_simp
  have 3: "getitem ex_canonical_record ''latitude'' = Inr (Many [Str ''10'', Num (Fin 10)])"
    "getitem ex_canonical_record ''longitude'' = Inr (Many [Str ''20'', Num (Fin 20)])"
    by (simp_all add: getitem_def ex_canonical_record_def)
  have 4: "tooltip_html L ex_canonical_record None None = Inl TypeError"
    by (simp add: tooltip_html_def optional_line_def get_def 3 and_then_simps)
  have 5: "getitem ex_third_record ''latitude'' = Inr (Many [Num (Fin 500), Num (Fin 10)])"
    by (simp add: getitem_def ex_third_record_def)
  have 6: "(''latitude'', Num (Fin 500)) \<in> set ex_third_record"
    by (simp add: ex_third_record_def)
  from 1 2 3 4 5 6 show ?thesis
    by (simp add: clean_ex_canonical clean_ex_third)
qed


end
